theory Spec2Isabelle
  imports Main "HOL-Library.AList"
begin

section \<open>The values of the language runtime\<close>

text \<open>
  The client (\<^verbatim>\<open>src/src/client.ts\<close>) is TypeScript running on a JavaScript engine.
  Its three operations build a request, hand it to \<^verbatim>\<open>fetch\<close>, and turn the response
  into a value.  What they compute is decided as much by the built-in operations they
  call (truthiness of a guard, \<^verbatim>\<open>Date\<close>, template strings) as by their own text, so
  the part of the ECMAScript runtime they use is modelled first.

  A \<^verbatim>\<open>Date\<close> object holds a time value: the milliseconds since 1970-01-01T00:00:00Z,
  or NaN for an invalid date.
\<close>

datatype date = TimeValue int | InvalidDate

text \<open>
  JavaScript values, as far as the client meets them: what \<^verbatim>\<open>JSON.parse\<close> produces
  (null, booleans, numbers, strings, arrays, objects), \<^verbatim>\<open>undefined\<close>, \<^verbatim>\<open>Date\<close>
  objects (which the client puts into its results), and the two primitives that JSON
  cannot express, bigints and symbols (the body of a message is of type \<^verbatim>\<open>unknown\<close>,
  so a caller may pass one).  Numbers are restricted to the integers: attempt counts
  and status codes are all the client ever reads as numbers.  An object is plain data:
  the list of its own enumerable properties in property order, each a value of this
  type; objects with methods, accessors or cycles are not values of the model.
\<close>

datatype jsvalue =
    JUndefined
  | JNull
  | JBool bool
  | JNum int
  | JBigInt int
  | JStr string
  | JSymbol
  | JDate date
  | JArr "jsvalue list"
  | JObj "(string \<times> jsvalue) list"

text \<open>
  What an operation can throw.  \<open>Error m\<close> is \<^verbatim>\<open>new Error(m)\<close>, the only error the
  client constructs itself; the others are thrown by the runtime: \<open>TypeError\<close> by a
  property read on \<^verbatim>\<open>null\<close>, by a call of something that is no function, by
  \<^verbatim>\<open>JSON.stringify\<close> on a bigint and by \<^verbatim>\<open>new Date\<close> on a value that has no primitive,
  \<open>RangeError\<close> by \<^verbatim>\<open>toISOString\<close> on an invalid date, \<open>SyntaxError\<close> by
  \<^verbatim>\<open>response.json()\<close> on a body that is not JSON, \<open>NetworkError\<close> by a \<^verbatim>\<open>fetch\<close>
  that could not complete the exchange.
\<close>

datatype error =
    Error string
  | TypeError
  | RangeError
  | SyntaxError
  | NetworkError string

subsection \<open>Truthiness\<close>

text \<open>
  ECMAScript ToBoolean, which every \<^verbatim>\<open>if (x)\<close> and \<^verbatim>\<open>x ? a : b\<close> of the client applies
  to \<open>x\<close>: \<^verbatim>\<open>undefined\<close>, \<^verbatim>\<open>null\<close>, \<^verbatim>\<open>false\<close>, \<^verbatim>\<open>0\<close>, \<^verbatim>\<open>0n\<close> and the empty string
  are falsy, every symbol and every object (also an empty one, also an invalid
  \<^verbatim>\<open>Date\<close>) is truthy.
\<close>

fun ToBoolean :: "jsvalue \<Rightarrow> bool" where
  "ToBoolean JUndefined = False"
| "ToBoolean JNull = False"
| "ToBoolean (JBool b) = b"
| "ToBoolean (JNum n) = (n \<noteq> 0)"
| "ToBoolean (JBigInt n) = (n \<noteq> 0)"
| "ToBoolean (JStr s) = (s \<noteq> [])"
| "ToBoolean JSymbol = True"
| "ToBoolean (JDate d) = True"
| "ToBoolean (JArr xs) = True"
| "ToBoolean (JObj ps) = True"

subsection \<open>Numbers as decimal strings\<close>

definition digit_char :: "nat \<Rightarrow> char" where
  "digit_char n = ''0123456789'' ! (n mod 10)"

definition digit_val :: "char \<Rightarrow> nat option" where
  "digit_val c = map_of
     [(CHR ''0'', 0), (CHR ''1'', 1), (CHR ''2'', 2), (CHR ''3'', 3), (CHR ''4'', 4),
      (CHR ''5'', 5), (CHR ''6'', 6), (CHR ''7'', 7), (CHR ''8'', 8), (CHR ''9'', 9)] c"

fun show_nat :: "nat \<Rightarrow> string" where
  "show_nat n = (if n < 10 then [digit_char n] else show_nat (n div 10) @ [digit_char (n mod 10)])"

declare show_nat.simps [simp del]

text \<open>
  \<^verbatim>\<open>Number.prototype.toString()\<close> and the conversion of a number inside a template
  string.  For an integer whose magnitude is at most \<open>2^53 - 1\<close> (where the number
  is the integer) the result is its decimal expansion.  Larger magnitudes, which the
  engine prints rounded or with an exponent, are outside the model: a response status
  is below 1000, and the theorem on \<^verbatim>\<open>maxAttempts\<close> assumes the bound.
\<close>

definition Number_toString :: "int \<Rightarrow> string" where
  "Number_toString n = (if n < 0 then CHR ''-'' # show_nat (nat (- n)) else show_nat (nat n))"

definition MAX_SAFE_INTEGER :: int where
  "MAX_SAFE_INTEGER = 9007199254740991"

text \<open>Fixed-width decimal fields, as the date formats use them.\<close>

definition pad2 :: "nat \<Rightarrow> string" where
  "pad2 n = [digit_char (n div 10), digit_char n]"

definition pad3 :: "nat \<Rightarrow> string" where
  "pad3 n = [digit_char (n div 100), digit_char (n div 10), digit_char n]"

definition pad4 :: "nat \<Rightarrow> string" where
  "pad4 n = [digit_char (n div 1000), digit_char (n div 100), digit_char (n div 10), digit_char n]"

definition pad6 :: "nat \<Rightarrow> string" where
  "pad6 n = [digit_char (n div 100000), digit_char (n div 10000), digit_char (n div 1000),
             digit_char (n div 100), digit_char (n div 10), digit_char n]"

section \<open>Dates (ECMAScript 21.4)\<close>

subsection \<open>Time values and their calendar fields\<close>

definition msPerDay :: int where
  "msPerDay = 86400000"

definition Day :: "int \<Rightarrow> int" where
  "Day t = t div msPerDay"

definition TimeWithinDay :: "int \<Rightarrow> int" where
  "TimeWithinDay t = t mod msPerDay"

definition DaysInYear :: "int \<Rightarrow> int" where
  "DaysInYear y =
     (if y mod 4 \<noteq> 0 then 365
      else if y mod 100 \<noteq> 0 then 366
      else if y mod 400 \<noteq> 0 then 365
      else 366)"

definition DayFromYear :: "int \<Rightarrow> int" where
  "DayFromYear y =
     365 * (y - 1970) + (y - 1969) div 4 - (y - 1901) div 100 + (y - 1601) div 400"

text \<open>
  The standard defines the year of a time value as the largest \<open>y\<close> whose first
  day is not after it.  The definition below computes it: an estimate from the mean
  length of a year, corrected by at most one.  Lemma \<open>YearFromDay_bounds\<close> proves that
  the result is the year of the standard.
\<close>

definition YearFromDay :: "int \<Rightarrow> int" where
  "YearFromDay d =
     (let y = 1970 + (d * 400) div 146097
      in if d < DayFromYear y then y - 1
         else if DayFromYear (y + 1) \<le> d then y + 1
         else y)"

definition YearFromTime :: "int \<Rightarrow> int" where
  "YearFromTime t = YearFromDay (Day t)"

definition DayWithinYear :: "int \<Rightarrow> int" where
  "DayWithinYear t = Day t - DayFromYear (YearFromTime t)"

definition InLeapYear :: "int \<Rightarrow> int" where
  "InLeapYear t = (if DaysInYear (YearFromTime t) = 366 then 1 else 0)"

text \<open>
  \<open>MonthStart leap m\<close> is the day within the year on which month \<open>m\<close> (0 to 11) begins;
  \<open>MonthStart leap 12\<close> is the length of the year.  These are the bounds of the standard's
  table for MonthFromTime.
\<close>

definition MonthStart :: "int \<Rightarrow> int \<Rightarrow> int" where
  "MonthStart leap m =
     (if m = 0 then 0
      else if m = 1 then 31
      else if m = 2 then 59 + leap
      else if m = 3 then 90 + leap
      else if m = 4 then 120 + leap
      else if m = 5 then 151 + leap
      else if m = 6 then 181 + leap
      else if m = 7 then 212 + leap
      else if m = 8 then 243 + leap
      else if m = 9 then 273 + leap
      else if m = 10 then 304 + leap
      else if m = 11 then 334 + leap
      else 365 + leap)"

definition MonthOfDay :: "int \<Rightarrow> int \<Rightarrow> int" where
  "MonthOfDay leap d =
     (if d < 31 then 0
      else if d < 59 + leap then 1
      else if d < 90 + leap then 2
      else if d < 120 + leap then 3
      else if d < 151 + leap then 4
      else if d < 181 + leap then 5
      else if d < 212 + leap then 6
      else if d < 243 + leap then 7
      else if d < 273 + leap then 8
      else if d < 304 + leap then 9
      else if d < 334 + leap then 10
      else 11)"

definition MonthFromTime :: "int \<Rightarrow> int" where
  "MonthFromTime t = MonthOfDay (InLeapYear t) (DayWithinYear t)"

definition DateFromTime :: "int \<Rightarrow> int" where
  "DateFromTime t = DayWithinYear t - MonthStart (InLeapYear t) (MonthFromTime t) + 1"

definition HourFromTime :: "int \<Rightarrow> int" where
  "HourFromTime t = (t div 3600000) mod 24"

definition MinFromTime :: "int \<Rightarrow> int" where
  "MinFromTime t = (t div 60000) mod 60"

definition SecFromTime :: "int \<Rightarrow> int" where
  "SecFromTime t = (t div 1000) mod 60"

definition msFromTime :: "int \<Rightarrow> int" where
  "msFromTime t = t mod 1000"

subsection \<open>From calendar fields to a time value\<close>

definition MakeTime :: "int \<Rightarrow> int \<Rightarrow> int \<Rightarrow> int \<Rightarrow> int" where
  "MakeTime h m s ms = h * 3600000 + m * 60000 + s * 1000 + ms"

definition MakeDay :: "int \<Rightarrow> int \<Rightarrow> int \<Rightarrow> int" where
  "MakeDay year month dt =
     (let ym = year + month div 12; mn = month mod 12
      in DayFromYear ym + MonthStart (if DaysInYear ym = 366 then 1 else 0) mn + dt - 1)"

definition MakeDate :: "int \<Rightarrow> int \<Rightarrow> int" where
  "MakeDate day time = day * msPerDay + time"

definition TimeClip :: "int \<Rightarrow> date" where
  "TimeClip t = (if \<bar>t\<bar> > 8640000000000000 then InvalidDate else TimeValue t)"

subsection \<open>toISOString\<close>

definition year_string :: "int \<Rightarrow> string" where
  "year_string y =
     (if 0 \<le> y \<and> y \<le> 9999 then pad4 (nat y)
      else (if y < 0 then CHR ''-'' else CHR ''+'') # pad6 (nat \<bar>y\<bar>))"

definition iso_string :: "int \<Rightarrow> string" where
  "iso_string t =
     year_string (YearFromTime t) @ ''-'' @ pad2 (nat (MonthFromTime t + 1)) @ ''-'' @
     pad2 (nat (DateFromTime t)) @ ''T'' @ pad2 (nat (HourFromTime t)) @ '':'' @
     pad2 (nat (MinFromTime t)) @ '':'' @ pad2 (nat (SecFromTime t)) @ ''.'' @
     pad3 (nat (msFromTime t)) @ ''Z''"

text \<open>\<^verbatim>\<open>Date.prototype.toISOString()\<close>: a RangeError on an invalid date.\<close>

fun toISOString :: "date \<Rightarrow> error + string" where
  "toISOString InvalidDate = Inl RangeError"
| "toISOString (TimeValue t) = Inr (iso_string t)"

subsection \<open>Parsing the date-time string format (ECMAScript 21.4.1.32)\<close>

text \<open>
  \<^verbatim>\<open>new Date(s)\<close> on a string parses it as \<^verbatim>\<open>Date.parse\<close> does.  The standard fixes
  the result for strings in its interchange format
  \<^verbatim>\<open>YYYY-MM-DDTHH:mm:ss.sssZ\<close>: a year of four digits (or a sign and six digits), then
  optionally month and day, then optionally a time with optional seconds and
  milliseconds, then optionally \<^verbatim>\<open>Z\<close> or an offset \<^verbatim>\<open>+HH:mm\<close>.  A string outside the
  format is parsed in whatever way the engine chooses; so, in this model, is a string
  on which the standard depends on the host or on which engines are known to differ
  (a time with no offset is local time; a day beyond the end of its month; hour 24).
  Those go to the host's \<open>Date_parse_fallback\<close>.
\<close>

primrec digits_acc :: "nat \<Rightarrow> nat \<Rightarrow> string \<Rightarrow> (nat \<times> string) option" where
  "digits_acc 0 acc s = Some (acc, s)"
| "digits_acc (Suc n) acc s =
     (case s of
        [] \<Rightarrow> None
      | c # r \<Rightarrow> (case digit_val c of None \<Rightarrow> None | Some v \<Rightarrow> digits_acc n (10 * acc + v) r))"

definition digits :: "nat \<Rightarrow> string \<Rightarrow> (int \<times> string) option" where
  "digits n s = (case digits_acc n 0 s of None \<Rightarrow> None | Some (v, r) \<Rightarrow> Some (int v, r))"

definition parse_year :: "string \<Rightarrow> (int \<times> string) option" where
  "parse_year s =
     (case s of
        [] \<Rightarrow> None
      | c # r \<Rightarrow>
          if c = CHR ''+'' then digits 6 r
          else if c = CHR ''-'' then
            (case digits 6 r of
               None \<Rightarrow> None
             | Some (y, r1) \<Rightarrow> if y = 0 then None else Some (- y, r1))
          else digits 4 s)"

definition parse_month_day :: "string \<Rightarrow> ((int \<times> int) \<times> string) option" where
  "parse_month_day s =
     (case s of
        [] \<Rightarrow> Some ((1, 1), [])
      | c # r \<Rightarrow>
          if c \<noteq> CHR ''-'' then Some ((1, 1), s)
          else (case digits 2 r of
                  None \<Rightarrow> None
                | Some (m, r1) \<Rightarrow>
                    (case r1 of
                       [] \<Rightarrow> Some ((m, 1), [])
                     | c1 # r2 \<Rightarrow>
                         if c1 \<noteq> CHR ''-'' then Some ((m, 1), r1)
                         else (case digits 2 r2 of
                                 None \<Rightarrow> None
                               | Some (d, r3) \<Rightarrow> Some ((m, d), r3)))))"

definition parse_millis :: "string \<Rightarrow> (int \<times> string) option" where
  "parse_millis s =
     (case s of
        [] \<Rightarrow> Some (0, [])
      | c # r \<Rightarrow> if c = CHR ''.'' then digits 3 r else Some (0, s))"

definition parse_seconds :: "string \<Rightarrow> ((int \<times> int) \<times> string) option" where
  "parse_seconds s =
     (case s of
        [] \<Rightarrow> Some ((0, 0), [])
      | c # r \<Rightarrow>
          if c \<noteq> CHR '':'' then Some ((0, 0), s)
          else (case digits 2 r of
                  None \<Rightarrow> None
                | Some (sec, r1) \<Rightarrow>
                    (case parse_millis r1 of
                       None \<Rightarrow> None
                     | Some (ms, r2) \<Rightarrow> Some ((sec, ms), r2))))"

definition parse_time :: "string \<Rightarrow> ((int \<times> int \<times> int \<times> int) \<times> string) option" where
  "parse_time s =
     (case s of
        [] \<Rightarrow> None
      | c # r \<Rightarrow>
          if c \<noteq> CHR ''T'' then None
          else (case digits 2 r of
                  None \<Rightarrow> None
                | Some (h, r1) \<Rightarrow>
                    (case r1 of
                       [] \<Rightarrow> None
                     | c1 # r2 \<Rightarrow>
                         if c1 \<noteq> CHR '':'' then None
                         else (case digits 2 r2 of
                                 None \<Rightarrow> None
                               | Some (mi, r3) \<Rightarrow>
                                   (case parse_seconds r3 of
                                      None \<Rightarrow> None
                                    | Some ((sec, ms), r4) \<Rightarrow> Some ((h, mi, sec, ms), r4))))))"

text \<open>The offset from UTC in minutes: \<^verbatim>\<open>Z\<close>, or a sign, hours and minutes.\<close>

definition parse_offset :: "string \<Rightarrow> int option" where
  "parse_offset s =
     (case s of
        [] \<Rightarrow> None
      | c # r \<Rightarrow>
          if c = CHR ''Z'' then (if r = [] then Some 0 else None)
          else if c = CHR ''+'' \<or> c = CHR ''-'' then
            (case digits 2 r of
               None \<Rightarrow> None
             | Some (h, r1) \<Rightarrow>
                 (case r1 of
                    [] \<Rightarrow> None
                  | c1 # r2 \<Rightarrow>
                      if c1 \<noteq> CHR '':'' then None
                      else (case digits 2 r2 of
                              None \<Rightarrow> None
                            | Some (m, r3) \<Rightarrow>
                                if r3 = [] \<and> h \<le> 23 \<and> m \<le> 59
                                then Some ((if c = CHR ''-'' then - 1 else 1) * (60 * h + m))
                                else None)))
          else None)"

definition DaysInMonth :: "int \<Rightarrow> int \<Rightarrow> int" where
  "DaysInMonth y m =
     (let leap = (if DaysInYear y = 366 then 1 else 0)
      in MonthStart leap m - MonthStart leap (m - 1))"

text \<open>
  The time value of a string of the format whose meaning the standard fixes, \<open>None\<close>
  for every other string.
\<close>

definition Date_parse_format :: "string \<Rightarrow> int option" where
  "Date_parse_format s =
     (case parse_year s of
        None \<Rightarrow> None
      | Some (y, s1) \<Rightarrow>
          (case parse_month_day s1 of
             None \<Rightarrow> None
           | Some ((m, d), s2) \<Rightarrow>
               if \<not> (1 \<le> m \<and> m \<le> 12 \<and> 1 \<le> d \<and> d \<le> DaysInMonth y m) then None
               else if s2 = [] then Some (MakeDate (MakeDay y (m - 1) d) 0)
               else (case parse_time s2 of
                       None \<Rightarrow> None
                     | Some ((h, mi, sec, ms), s3) \<Rightarrow>
                         if \<not> (h \<le> 23 \<and> mi \<le> 59 \<and> sec \<le> 59) then None
                         else (case parse_offset s3 of
                                 None \<Rightarrow> None
                               | Some off \<Rightarrow>
                                   Some (MakeDate (MakeDay y (m - 1) d) (MakeTime h mi sec ms)
                                         - off * 60000)))))"

section \<open>The host: network and engine\<close>

text \<open>
  A request as \<^verbatim>\<open>fetch(url, init)\<close> receives it: the URL and the \<^verbatim>\<open>RequestInit\<close> with
  its optional method, its header record (a plain object: keys in insertion order, an
  assignment to an existing key replaces the value in place) and its optional body.
\<close>

record request =
  url :: string
  init_method :: "string option"
  init_headers :: "(string \<times> string) list"
  init_body :: "string option"

text \<open>
  A response: its status (a three-digit number), its status text, and what
  \<^verbatim>\<open>response.json()\<close> resolves to (\<open>None\<close> when the body is not JSON and the call
  rejects).
\<close>

record response =
  status :: nat
  statusText :: string
  json :: "jsvalue option"

text \<open>The getter \<^verbatim>\<open>Response.ok\<close> of the Fetch standard: the status is in 200 to 299.\<close>

definition ok :: "response \<Rightarrow> bool" where
  "ok r = (200 \<le> status r \<and> status r \<le> 299)"

text \<open>
  What the environment supplies and the client only calls:

  \<^item> \<^verbatim>\<open>fetch\<close>: a response, or the error the transport rejects with;

  \<^item> \<^verbatim>\<open>JSON.stringify(value)\<close>: the JSON text, or \<open>None\<close> for \<^verbatim>\<open>undefined\<close> (which it
    returns for a symbol, as it does for a function), or the error it throws (a
    TypeError on a bigint, as on a cyclic structure);

  \<^item> the engine's parsing of date strings outside the standard format;

  \<^item> ToPrimitive on an array or an object, which \<^verbatim>\<open>new Date\<close> applies to its argument:
    the string the value converts to, or \<open>None\<close> when the conversion throws its
    TypeError (an object whose own \<^verbatim>\<open>toString\<close> property is no function has no
    primitive; an array that holds such an object or a symbol cannot be joined).
\<close>

record host =
  fetch :: "request \<Rightarrow> error + response"
  JSON_stringify :: "jsvalue \<Rightarrow> error + string option"
  Date_parse_fallback :: "string \<Rightarrow> date"
  ToPrimitive :: "jsvalue \<Rightarrow> string option"

definition Date_parse :: "host \<Rightarrow> string \<Rightarrow> date" where
  "Date_parse h s =
     (case Date_parse_format s of
        Some t \<Rightarrow> TimeClip t
      | None \<Rightarrow> Date_parse_fallback h s)"

text \<open>
  \<^verbatim>\<open>new Date(value)\<close> (ECMAScript 21.4.2.1, one argument).  A \<^verbatim>\<open>Date\<close> is copied; any
  other value is converted to a primitive; a string is parsed; any other primitive is
  converted to a number, which throws a TypeError on a bigint and on a symbol.
\<close>

fun new_Date :: "host \<Rightarrow> jsvalue \<Rightarrow> error + date" where
  "new_Date h (JStr s) = Inr (Date_parse h s)"
| "new_Date h (JDate d) = Inr d"
| "new_Date h JUndefined = Inr InvalidDate"
| "new_Date h JNull = Inr (TimeValue 0)"
| "new_Date h (JBool b) = Inr (TimeValue (if b then 1 else 0))"
| "new_Date h (JNum n) = Inr (TimeClip n)"
| "new_Date h (JBigInt n) = Inl TypeError"
| "new_Date h JSymbol = Inl TypeError"
| "new_Date h (JArr xs) =
     (case ToPrimitive h (JArr xs) of None \<Rightarrow> Inl TypeError | Some s \<Rightarrow> Inr (Date_parse h s))"
| "new_Date h (JObj ps) =
     (case ToPrimitive h (JObj ps) of None \<Rightarrow> Inl TypeError | Some s \<Rightarrow> Inr (Date_parse h s))"

subsection \<open>Reading and copying properties\<close>

text \<open>
  The property read \<^verbatim>\<open>v.k\<close> for the names the client reads (\<^verbatim>\<open>messageId\<close>,
  \<^verbatim>\<open>scheduledAt\<close>, \<^verbatim>\<open>createdAt\<close>, \<^verbatim>\<open>updatedAt\<close>, \<^verbatim>\<open>lastAttemptAt\<close>): a TypeError on
  \<^verbatim>\<open>null\<close> and \<^verbatim>\<open>undefined\<close>, the property's value on an object that has it,
  \<^verbatim>\<open>undefined\<close> otherwise (no prototype, array, string or other primitive has a property
  of these names).
\<close>

fun read_field :: "jsvalue \<Rightarrow> string \<Rightarrow> error + jsvalue" where
  "read_field JUndefined k = Inl TypeError"
| "read_field JNull k = Inl TypeError"
| "read_field (JObj ps) k = Inr (case map_of ps k of None \<Rightarrow> JUndefined | Some v \<Rightarrow> v)"
| "read_field v k = Inr JUndefined"

text \<open>
  The own enumerable properties that a spread \<^verbatim>\<open>{...v}\<close> copies: those of an object,
  the indexed elements of an array, the indexed characters of a string, none for
  any other value (\<^verbatim>\<open>null\<close> and \<^verbatim>\<open>undefined\<close> included, which a spread accepts).
\<close>

fun own_entries :: "jsvalue \<Rightarrow> (string \<times> jsvalue) list" where
  "own_entries (JObj ps) = ps"
| "own_entries (JArr xs) = zip (map show_nat [0..<length xs]) xs"
| "own_entries (JStr s) = zip (map show_nat [0..<length s]) (map (\<lambda>c. JStr [c]) s)"
| "own_entries v = []"

text \<open>Each copied property is defined on the target in turn, as an assignment would.\<close>

definition object_spread :: "jsvalue \<Rightarrow> (string \<times> jsvalue) list \<Rightarrow> (string \<times> jsvalue) list" where
  "object_spread v obj = fold (\<lambda>(k, x). AList.update k x) (own_entries v) obj"

section \<open>The client\<close>

subsection \<open>Types (\<^verbatim>\<open>types.ts\<close>)\<close>

datatype MessageStatus = CREATED | QUEUED | DELIVER | SENT | RETRY | DLQ | ARCHIVED

text \<open>The string value of each member of the enum, which a template string inserts.\<close>

fun MessageStatus_string :: "MessageStatus \<Rightarrow> string" where
  "MessageStatus_string CREATED = ''CREATED''"
| "MessageStatus_string QUEUED = ''QUEUED''"
| "MessageStatus_string DELIVER = ''DELIVER''"
| "MessageStatus_string SENT = ''SENT''"
| "MessageStatus_string RETRY = ''RETRY''"
| "MessageStatus_string DLQ = ''DLQ''"
| "MessageStatus_string ARCHIVED = ''ARCHIVED''"

record DoneClientConfig =
  baseUrl :: string
  authToken :: string

text \<open>\<^verbatim>\<open>delay?: string | Date\<close>\<close>

datatype delay_option = DelayString string | DelayDate date

text \<open>
  \<^verbatim>\<open>SendMessageOptions\<close>: every field optional (\<open>None\<close> is \<^verbatim>\<open>undefined\<close>).  The custom
  headers are a \<^verbatim>\<open>Record<string, string>\<close>, given here as the list of its entries in
  the order of \<^verbatim>\<open>Object.entries\<close>; an object has each key once, so the keys of a
  well-formed list are distinct.  \<^verbatim>\<open>maxAttempts\<close> is a number, here an integer.
\<close>

record SendMessageOptions =
  delay :: "delay_option option"
  notBefore :: "date option"
  headers :: "(string \<times> string) list option"
  maxAttempts :: "int option"
  failureCallback :: "string option"

record SendMessageResponse =
  messageId :: jsvalue
  scheduledAt :: date

subsection \<open>Construction\<close>

text \<open>The class has one private field, the configuration; the constructor stores it.\<close>

record DoneClient =
  config :: DoneClientConfig

definition DoneClient_new :: "DoneClientConfig \<Rightarrow> DoneClient" where
  "DoneClient_new cfg = \<lparr>config = cfg\<rparr>"

definition create :: "string \<Rightarrow> string \<Rightarrow> DoneClient" where
  "create b t = DoneClient_new \<lparr>baseUrl = b, authToken = t\<rparr>"

subsection \<open>\<^verbatim>\<open>sendMessage\<close>: the request\<close>

text \<open>
  The header record starts with the two fixed headers; each step below is one
  \<^verbatim>\<open>if\<close> of the source, in the source's order, and assigns into the same record.
  \<open>options\<close> is \<open>None\<close> when the argument is omitted: \<^verbatim>\<open>options?.x\<close> is then
  \<^verbatim>\<open>undefined\<close>.

  Lines 27 to 33: the guard is the truthiness of \<^verbatim>\<open>options?.delay\<close>, so an empty string
  sets nothing; \<^verbatim>\<open>toISOString\<close> throws on an invalid date.
\<close>

definition add_delay ::
  "SendMessageOptions option \<Rightarrow> (string \<times> string) list \<Rightarrow> error + (string \<times> string) list" where
  "add_delay options hs =
     (case Option.bind options delay of
        None \<Rightarrow> Inr hs
      | Some (DelayString s) \<Rightarrow>
          if s \<noteq> [] then Inr (AList.update ''Done-Delay'' s hs) else Inr hs
      | Some (DelayDate d) \<Rightarrow>
          (case toISOString d of
             Inl e \<Rightarrow> Inl e
           | Inr s \<Rightarrow> Inr (AList.update ''Done-Delay'' s hs)))"

text \<open>Lines 35 to 37: a \<^verbatim>\<open>Date\<close> is an object, so truthy whenever it is there.\<close>

definition add_notBefore ::
  "SendMessageOptions option \<Rightarrow> (string \<times> string) list \<Rightarrow> error + (string \<times> string) list" where
  "add_notBefore options hs =
     (case Option.bind options notBefore of
        None \<Rightarrow> Inr hs
      | Some d \<Rightarrow>
          (case toISOString d of
             Inl e \<Rightarrow> Inl e
           | Inr s \<Rightarrow> Inr (AList.update ''Done-Not-Before'' s hs)))"

text \<open>Lines 39 to 41: the number 0 is falsy.\<close>

definition add_maxAttempts ::
  "SendMessageOptions option \<Rightarrow> (string \<times> string) list \<Rightarrow> (string \<times> string) list" where
  "add_maxAttempts options hs =
     (case Option.bind options maxAttempts of
        None \<Rightarrow> hs
      | Some n \<Rightarrow> if n \<noteq> 0 then AList.update ''Done-Max-Attempts'' (Number_toString n) hs else hs)"

text \<open>Lines 43 to 45: the empty string is falsy.\<close>

definition add_failureCallback ::
  "SendMessageOptions option \<Rightarrow> (string \<times> string) list \<Rightarrow> (string \<times> string) list" where
  "add_failureCallback options hs =
     (case Option.bind options failureCallback of
        None \<Rightarrow> hs
      | Some s \<Rightarrow> if s \<noteq> [] then AList.update ''Done-Failure-Callback'' s hs else hs)"

text \<open>Lines 47 to 51: the loop over \<^verbatim>\<open>Object.entries(options.headers)\<close>.\<close>

definition add_custom ::
  "SendMessageOptions option \<Rightarrow> (string \<times> string) list \<Rightarrow> (string \<times> string) list" where
  "add_custom options hs =
     (case Option.bind options headers of
        None \<Rightarrow> hs
      | Some entries \<Rightarrow> fold (\<lambda>(key, v). AList.update (''Done-'' @ key) v) entries hs)"

definition sendMessage_headers ::
  "DoneClientConfig \<Rightarrow> SendMessageOptions option \<Rightarrow> error + (string \<times> string) list" where
  "sendMessage_headers cfg options =
     (case add_delay options
             [(''Authorization'', ''Bearer '' @ authToken cfg),
              (''Content-Type'', ''application/json'')] of
        Inl e \<Rightarrow> Inl e
      | Inr h1 \<Rightarrow>
          (case add_notBefore options h1 of
             Inl e \<Rightarrow> Inl e
           | Inr h2 \<Rightarrow>
               Inr (add_custom options (add_failureCallback options (add_maxAttempts options h2)))))"

text \<open>
  Lines 58 to 60: the value of \<^verbatim>\<open>fetchOptions.body\<close>, or the error that
  \<^verbatim>\<open>JSON.stringify\<close> throws.  \<open>body\<close> is \<open>JUndefined\<close> when the argument is omitted; the
  guard is its truthiness.  A property that is not set and one that \<^verbatim>\<open>JSON.stringify\<close>
  sets to \<^verbatim>\<open>undefined\<close> are the same to \<^verbatim>\<open>fetch\<close>: no payload.
\<close>

definition sendMessage_payload :: "host \<Rightarrow> jsvalue \<Rightarrow> error + string option" where
  "sendMessage_payload h body = (if ToBoolean body then JSON_stringify h body else Inr None)"

text \<open>Lines 22 to 62: the argument of the one \<^verbatim>\<open>fetch\<close>, or the error thrown before it.\<close>

definition sendMessage_request ::
  "host \<Rightarrow> DoneClient \<Rightarrow> string \<Rightarrow> jsvalue \<Rightarrow> SendMessageOptions option \<Rightarrow> error + request" where
  "sendMessage_request h c callbackUrl body options =
     (case sendMessage_headers (config c) options of
        Inl e \<Rightarrow> Inl e
      | Inr hs \<Rightarrow>
          (case sendMessage_payload h body of
             Inl e \<Rightarrow> Inl e
           | Inr payload \<Rightarrow>
               Inr \<lparr>url = baseUrl (config c) @ ''/v1/'' @ callbackUrl,
                    init_method = Some ''POST'',
                    init_headers = hs,
                    init_body = payload\<rparr>))"

subsection \<open>The three operations\<close>

text \<open>
  The failure of lines 64 to 66, 82 to 84 and 103 to 105: the label, the status and
  the status text, joined as the template string joins them.
\<close>

definition failure_message :: "string \<Rightarrow> response \<Rightarrow> string" where
  "failure_message label r =
     label @ '': '' @ Number_toString (int (status r)) @ '' '' @ statusText r"

text \<open>\<^verbatim>\<open>new Date(data.k)\<close>: the property read, then the construction; either may throw.\<close>

definition date_field :: "host \<Rightarrow> jsvalue \<Rightarrow> string \<Rightarrow> error + date" where
  "date_field h data k =
     (case read_field data k of
        Inl e \<Rightarrow> Inl e
      | Inr v \<Rightarrow> new_Date h v)"

text \<open>Lines 64 to 72.\<close>

definition sendMessage_result :: "host \<Rightarrow> response \<Rightarrow> error + SendMessageResponse" where
  "sendMessage_result h r =
     (if \<not> ok r then Inl (Error (failure_message ''Failed to send message'' r))
      else (case json r of
              None \<Rightarrow> Inl SyntaxError
            | Some result \<Rightarrow>
                (case read_field result ''messageId'' of
                   Inl e \<Rightarrow> Inl e
                 | Inr mid \<Rightarrow>
                     (case date_field h result ''scheduledAt'' of
                        Inl e \<Rightarrow> Inl e
                      | Inr sa \<Rightarrow> Inr \<lparr>messageId = mid, scheduledAt = sa\<rparr>))))"

text \<open>
  An operation returns its outcome together with the requests it handed to \<^verbatim>\<open>fetch\<close>,
  in order.
\<close>

definition sendMessage ::
  "host \<Rightarrow> DoneClient \<Rightarrow> string \<Rightarrow> jsvalue \<Rightarrow> SendMessageOptions option
   \<Rightarrow> (error + SendMessageResponse) \<times> request list" where
  "sendMessage h c callbackUrl body options =
     (case sendMessage_request h c callbackUrl body options of
        Inl e \<Rightarrow> (Inl e, [])
      | Inr req \<Rightarrow>
          (case fetch h req of
             Inl e \<Rightarrow> (Inl e, [req])
           | Inr r \<Rightarrow> (sendMessage_result h r, [req])))"

text \<open>Lines 76 to 80: a \<^verbatim>\<open>fetch\<close> with headers only, so a GET without a body.\<close>

definition getMessage_request :: "DoneClient \<Rightarrow> string \<Rightarrow> request" where
  "getMessage_request c mid =
     \<lparr>url = baseUrl (config c) @ ''/v1/'' @ mid,
      init_method = None,
      init_headers = [(''Authorization'', ''Bearer '' @ authToken (config c))],
      init_body = None\<rparr>"

text \<open>\<^verbatim>\<open>x ? new Date(x) : undefined\<close>\<close>

definition optional_date :: "host \<Rightarrow> jsvalue \<Rightarrow> error + jsvalue" where
  "optional_date h x =
     (if ToBoolean x
      then (case new_Date h x of Inl e \<Rightarrow> Inl e | Inr d \<Rightarrow> Inr (JDate d))
      else Inr JUndefined)"

text \<open>\<^verbatim>\<open>data.k ? new Date(data.k) : undefined\<close>\<close>

definition optional_date_field :: "host \<Rightarrow> jsvalue \<Rightarrow> string \<Rightarrow> error + jsvalue" where
  "optional_date_field h data k =
     (case read_field data k of
        Inl e \<Rightarrow> Inl e
      | Inr v \<Rightarrow> optional_date h v)"

text \<open>
  Lines 82 to 94.  The object literal copies the properties of \<open>data\<close> and then
  defines the four timestamps in the order of the source, each replacing a copied
  property of its name or added after the others; \<^verbatim>\<open>lastAttemptAt\<close> is defined in
  either branch of its conditional, with the value \<^verbatim>\<open>undefined\<close> in the second.  The
  first property read or \<^verbatim>\<open>new Date\<close> that throws ends the evaluation.
\<close>

definition getMessage_result :: "host \<Rightarrow> response \<Rightarrow> error + (string \<times> jsvalue) list" where
  "getMessage_result h r =
     (if \<not> ok r then Inl (Error (failure_message ''Failed to get message'' r))
      else (case json r of
              None \<Rightarrow> Inl SyntaxError
            | Some data \<Rightarrow>
                (case date_field h data ''createdAt'' of
                   Inl e \<Rightarrow> Inl e
                 | Inr ca \<Rightarrow>
                (case date_field h data ''updatedAt'' of
                   Inl e \<Rightarrow> Inl e
                 | Inr ua \<Rightarrow>
                (case date_field h data ''scheduledAt'' of
                   Inl e \<Rightarrow> Inl e
                 | Inr sa \<Rightarrow>
                (case optional_date_field h data ''lastAttemptAt'' of
                   Inl e \<Rightarrow> Inl e
                 | Inr la \<Rightarrow>
                     Inr (AList.update ''lastAttemptAt'' la
                         (AList.update ''scheduledAt'' (JDate sa)
                         (AList.update ''updatedAt'' (JDate ua)
                         (AList.update ''createdAt'' (JDate ca)
                         (object_spread data [])))))))))))"

definition getMessage ::
  "host \<Rightarrow> DoneClient \<Rightarrow> string \<Rightarrow> (error + (string \<times> jsvalue) list) \<times> request list" where
  "getMessage h c mid =
     (let req = getMessage_request c mid
      in case fetch h req of
           Inl e \<Rightarrow> (Inl e, [req])
         | Inr r \<Rightarrow> (getMessage_result h r, [req]))"

text \<open>Lines 97 to 101.\<close>

definition getMessagesByStatus_request :: "DoneClient \<Rightarrow> MessageStatus \<Rightarrow> request" where
  "getMessagesByStatus_request c st =
     \<lparr>url = baseUrl (config c) @ ''/v1/by-status/'' @ MessageStatus_string st,
      init_method = None,
      init_headers = [(''Authorization'', ''Bearer '' @ authToken (config c))],
      init_body = None\<rparr>"

text \<open>The callback of \<^verbatim>\<open>data.map\<close>, lines 108 to 112.\<close>

definition status_info :: "host \<Rightarrow> jsvalue \<Rightarrow> error + (string \<times> jsvalue) list" where
  "status_info h item =
     (case date_field h item ''scheduledAt'' of
        Inl e \<Rightarrow> Inl e
      | Inr sa \<Rightarrow>
          (case optional_date_field h item ''lastAttemptAt'' of
             Inl e \<Rightarrow> Inl e
           | Inr la \<Rightarrow>
               Inr (AList.update ''lastAttemptAt'' la
                   (AList.update ''scheduledAt'' (JDate sa)
                   (object_spread item [])))))"

text \<open>\<^verbatim>\<open>Array.prototype.map\<close> with a callback that may throw: the first error ends it.\<close>

fun map_items :: "('a \<Rightarrow> error + 'b) \<Rightarrow> 'a list \<Rightarrow> error + 'b list" where
  "map_items f [] = Inr []"
| "map_items f (x # xs) =
     (case f x of
        Inl e \<Rightarrow> Inl e
      | Inr y \<Rightarrow> (case map_items f xs of Inl e \<Rightarrow> Inl e | Inr ys \<Rightarrow> Inr (y # ys)))"

text \<open>
  Lines 103 to 113.  The cast to an array checks nothing: on anything but an array
  \<^verbatim>\<open>data.map\<close> is not a function (on \<^verbatim>\<open>null\<close>, not even readable), a TypeError.
\<close>

definition getMessagesByStatus_result ::
  "host \<Rightarrow> response \<Rightarrow> error + (string \<times> jsvalue) list list" where
  "getMessagesByStatus_result h r =
     (if \<not> ok r then Inl (Error (failure_message ''Failed to get messages by status'' r))
      else (case json r of
              None \<Rightarrow> Inl SyntaxError
            | Some (JArr items) \<Rightarrow> map_items (status_info h) items
            | Some _ \<Rightarrow> Inl TypeError))"

definition getMessagesByStatus ::
  "host \<Rightarrow> DoneClient \<Rightarrow> MessageStatus
   \<Rightarrow> (error + (string \<times> jsvalue) list list) \<times> request list" where
  "getMessagesByStatus h c st =
     (let req = getMessagesByStatus_request c st
      in case fetch h req of
           Inl e \<Rightarrow> (Inl e, [req])
         | Inr r \<Rightarrow> (getMessagesByStatus_result h r, [req]))"

text \<open>The value of \<^verbatim>\<open>obj.k\<close> on a result object: \<^verbatim>\<open>undefined\<close> when there is no such property.\<close>

definition property :: "(string \<times> jsvalue) list \<Rightarrow> string \<Rightarrow> jsvalue" where
  "property obj k = (case map_of obj k of None \<Rightarrow> JUndefined | Some v \<Rightarrow> v)"

section \<open>Predicates on the arguments\<close>

text \<open>
  The keys of the custom-headers record of a call (none when there are no options or
  no record).
\<close>

definition custom_keys :: "SendMessageOptions option \<Rightarrow> string set" where
  "custom_keys options =
     (case Option.bind options headers of None \<Rightarrow> {} | Some entries \<Rightarrow> fst ` set entries)"

text \<open>
  No \<^verbatim>\<open>Date\<close> among the options is an invalid date (on which \<^verbatim>\<open>toISOString\<close> would
  throw before any request is made).
\<close>

definition dates_valid :: "SendMessageOptions option \<Rightarrow> bool" where
  "dates_valid options =
     (Option.bind options delay \<noteq> Some (DelayDate InvalidDate) \<and>
      Option.bind options notBefore \<noteq> Some InvalidDate)"

text \<open>The time values a \<^verbatim>\<open>Date\<close> can hold (ECMAScript 21.4.1.1).\<close>

definition time_value :: "int \<Rightarrow> bool" where
  "time_value t = (\<bar>t\<bar> \<le> 8640000000000000)"

text \<open>The number that a string of decimal digits denotes.\<close>

definition decimal_value :: "string \<Rightarrow> nat" where
  "decimal_value s = foldl (\<lambda>a c. 10 * a + (case digit_val c of None \<Rightarrow> 0 | Some v \<Rightarrow> v)) 0 s"

section \<open>A host and the calls of the test suite\<close>

text \<open>
  Concrete inputs for the examples below, taken from \<^verbatim>\<open>tests/client_test.ts\<close>: the
  client of the tests, and a host whose \<^verbatim>\<open>fetch\<close> answers every request with a given
  response, as the tests' mock does.  It knows no date format beyond the standard one.

  The JSON text of a value (ECMAScript 25.5.2), for values whose strings need no
  escape: \<open>None\<close> where the serialization throws, which it does on a bigint at any
  depth.  Inside an array \<^verbatim>\<open>undefined\<close> and a symbol are written \<^verbatim>\<open>null\<close>; a property of
  an object that has one of them as its value is left out; a \<^verbatim>\<open>Date\<close> is written as
  its \<^verbatim>\<open>toJSON()\<close>, the string of \<^verbatim>\<open>toISOString\<close> or \<^verbatim>\<open>null\<close> for an invalid date.
\<close>

definition quote :: "string \<Rightarrow> string" where
  "quote s = CHR 0x22 # s @ [CHR 0x22]"

fun join_with :: "string \<Rightarrow> string list \<Rightarrow> string" where
  "join_with sep [] = []"
| "join_with sep [x] = x"
| "join_with sep (x # y # zs) = x @ sep @ join_with sep (y # zs)"

fun json_text :: "jsvalue \<Rightarrow> string option" where
  "json_text JUndefined = Some ''null''"
| "json_text JNull = Some ''null''"
| "json_text (JBool b) = Some (if b then ''true'' else ''false'')"
| "json_text (JNum n) = Some (Number_toString n)"
| "json_text (JBigInt n) = None"
| "json_text (JStr s) = Some (quote s)"
| "json_text JSymbol = Some ''null''"
| "json_text (JDate d) = Some (case toISOString d of Inl e \<Rightarrow> ''null'' | Inr s \<Rightarrow> quote s)"
| "json_text (JArr xs) =
     map_option (\<lambda>ts. ''['' @ join_with '','' ts @ '']'') (those (map json_text xs))"
| "json_text (JObj ps) =
     map_option (\<lambda>ts. ''{'' @ join_with '','' ts @ ''}'')
       (those (map (\<lambda>p. map_option (\<lambda>t. quote (fst p) @ '':'' @ t) (json_text (snd p)))
                   (filter (\<lambda>p. snd p \<noteq> JUndefined \<and> snd p \<noteq> JSymbol) ps)))"

text \<open>
  \<^verbatim>\<open>JSON.stringify(value)\<close>: \<^verbatim>\<open>undefined\<close> for \<^verbatim>\<open>undefined\<close> and for a symbol, a TypeError
  where the serialization throws, the JSON text otherwise.
\<close>

definition stringify :: "jsvalue \<Rightarrow> error + string option" where
  "stringify v =
     (if v = JUndefined \<or> v = JSymbol then Inr None
      else (case json_text v of None \<Rightarrow> Inl TypeError | Some t \<Rightarrow> Inr (Some t)))"

text \<open>
  ToString on the values of the model (ECMAScript 7.1.17), \<open>None\<close> where it throws its
  TypeError: on a symbol; on an object that has an own property \<^verbatim>\<open>toString\<close> (a value of
  the model is no function, so the conversion finds nothing to call: the inherited
  \<^verbatim>\<open>valueOf\<close> returns the object itself); on an array that holds such an element.  An
  object without that property is \<^verbatim>\<open>[object Object]\<close>; an array is its elements joined
  by commas, \<^verbatim>\<open>null\<close> and \<^verbatim>\<open>undefined\<close> as the empty string.  The text of a \<^verbatim>\<open>Date\<close>
  inside an array depends on the engine and its time zone; this host writes it as
  \<^verbatim>\<open>toISOString\<close> does.
\<close>

fun to_string :: "jsvalue \<Rightarrow> string option" where
  "to_string JUndefined = Some ''undefined''"
| "to_string JNull = Some ''null''"
| "to_string (JBool b) = Some (if b then ''true'' else ''false'')"
| "to_string (JNum n) = Some (Number_toString n)"
| "to_string (JBigInt n) = Some (Number_toString n)"
| "to_string (JStr s) = Some s"
| "to_string JSymbol = None"
| "to_string (JDate d) = Some (case toISOString d of Inl e \<Rightarrow> ''Invalid Date'' | Inr s \<Rightarrow> s)"
| "to_string (JArr xs) =
     map_option (join_with '','')
       (those (map (\<lambda>x. if x = JUndefined \<or> x = JNull then Some [] else to_string x) xs))"
| "to_string (JObj ps) =
     (if ''toString'' \<in> fst ` set ps then None else Some ''[object Object]'')"

definition test_host :: "response \<Rightarrow> host" where
  "test_host r =
     \<lparr>fetch = (\<lambda>req. Inr r),
      JSON_stringify = stringify,
      Date_parse_fallback = (\<lambda>s. InvalidDate),
      ToPrimitive = to_string\<rparr>"

definition test_client :: DoneClient where
  "test_client = create ''https://api.example.com'' ''test-token''"

definition no_options :: SendMessageOptions where
  "no_options =
     \<lparr>delay = None, notBefore = None, headers = None, maxAttempts = None,
      failureCallback = None\<rparr>"

definition test_body :: jsvalue where
  "test_body = JObj [(''test'', JStr ''data'')]"

definition response_sent :: response where
  "response_sent =
     \<lparr>status = 200, statusText = [],
      json = Some (JObj [(''messageId'', JStr ''msg-123''),
                         (''scheduledAt'', JStr ''2024-01-01T12:00:00Z'')])\<rparr>"

definition response_bad_request :: response where
  "response_bad_request = \<lparr>status = 400, statusText = ''Bad Request'', json = None\<rparr>"

definition response_message :: response where
  "response_message =
     \<lparr>status = 200, statusText = [],
      json = Some (JObj [(''id'', JStr ''msg-123''),
                         (''callbackUrl'', JStr ''https://example.com/webhook''),
                         (''body'', JObj [(''test'', JStr ''data'')]),
                         (''status'', JStr ''QUEUED''),
                         (''attempts'', JNum 0),
                         (''maxAttempts'', JNum 3),
                         (''createdAt'', JStr ''2024-01-01T12:00:00Z''),
                         (''updatedAt'', JStr ''2024-01-01T12:00:00Z''),
                         (''scheduledAt'', JStr ''2024-01-01T12:05:00Z'')])\<rparr>"

definition response_list :: response where
  "response_list =
     \<lparr>status = 200, statusText = [],
      json = Some (JArr [JObj [(''id'', JStr ''msg-1''),
                               (''status'', JStr ''QUEUED''),
                               (''attempts'', JNum 0),
                               (''scheduledAt'', JStr ''2024-01-01T12:00:00Z'')],
                         JObj [(''id'', JStr ''msg-2''),
                               (''status'', JStr ''QUEUED''),
                               (''attempts'', JNum 1),
                               (''scheduledAt'', JStr ''2024-01-01T12:00:00Z''),
                               (''lastAttemptAt'', JStr ''2024-01-01T11:00:00Z'')]])\<rparr>"

text \<open>
  A message and a list entry whose \<^verbatim>\<open>scheduledAt\<close> is not a string but the object
  \<^verbatim>\<open>{"toString": 1}\<close>, which has no primitive.
\<close>

definition response_no_primitive :: response where
  "response_no_primitive =
     \<lparr>status = 200, statusText = [],
      json = Some (JObj [(''id'', JStr ''msg-123''),
                         (''createdAt'', JStr ''2024-01-01T12:00:00Z''),
                         (''updatedAt'', JStr ''2024-01-01T12:00:00Z''),
                         (''scheduledAt'', JObj [(''toString'', JNum 1)])])\<rparr>"

definition response_list_no_primitive :: response where
  "response_list_no_primitive =
     \<lparr>status = 200, statusText = [],
      json = Some (JArr [JObj [(''id'', JStr ''msg-1''),
                               (''scheduledAt'', JStr ''2024-01-01T12:00:00Z'')],
                         JObj [(''id'', JStr ''msg-2''),
                               (''scheduledAt'', JObj [(''toString'', JNum 1)])]])\<rparr>"

definition all_options :: SendMessageOptions where
  "all_options =
     \<lparr>delay = None, notBefore = Some (TimeValue 1704103200000),
      headers = Some [(''Custom-Header'', ''custom-value'')],
      maxAttempts = Some 5, failureCallback = Some ''https://fail.example.com''\<rparr>"

definition colliding_delay :: SendMessageOptions where
  "colliding_delay =
     no_options\<lparr>delay := Some (DelayString ''5m''), headers := Some [(''Delay'', ''10m'')]\<rparr>"

definition delay_5m :: SendMessageOptions where
  "delay_5m = no_options\<lparr>delay := Some (DelayString ''5m'')\<rparr>"

definition delay_date :: SendMessageOptions where
  "delay_date = no_options\<lparr>delay := Some (DelayDate (TimeValue 1704121200000))\<rparr>"

definition colliding_attempts :: SendMessageOptions where
  "colliding_attempts =
     no_options\<lparr>maxAttempts := Some 5, headers := Some [(''Max-Attempts'', ''99'')]\<rparr>"





section \<open>Header records\<close>

lemma fold_update_other:
  "x \<notin> f ` fst ` set es \<Longrightarrow>
   map_of (fold (\<lambda>(key, v). AList.update (f key) v) es hs) x = map_of hs x"
  by (induction es arbitrary: hs) (auto simp: update_conv')

lemma fold_update_member:
  "inj f \<Longrightarrow> distinct (map fst es) \<Longrightarrow> (k, v) \<in> set es \<Longrightarrow>
   map_of (fold (\<lambda>(key, v). AList.update (f key) v) es hs) (f k) = Some v"
proof (induction es arbitrary: hs)
  case Nil
  then show ?case by simp
next
  case (Cons a es)
  obtain k' v' where a: "a = (k', v')" by (cases a)
  show ?case
  proof (cases "(k, v) = a")
    case True
    with Cons.prems a have "k \<notin> fst ` set es" by auto
    with \<open>inj f\<close> have "f k \<notin> f ` fst ` set es" by (auto dest: injD)
    from fold_update_other[OF this] True a show ?thesis by (simp add: update_conv')
  next
    case False
    with Cons show ?thesis by (auto simp: a)
  qed
qed

lemma fold_update_distinct:
  "distinct (map fst hs) \<Longrightarrow> distinct (map fst (fold (\<lambda>(key, v). AList.update (f key) v) es hs))"
  by (induction es arbitrary: hs) (auto simp: distinct_update)

lemma distinct_filter_key:
  "distinct (map fst xs) \<Longrightarrow> map_of xs n = Some v \<Longrightarrow> filter (\<lambda>(a, _). a = n) xs = [(n, v)]"
proof (induction xs)
  case Nil then show ?case by simp
next
  case (Cons a xs)
  obtain k' v' where a: "a = (k', v')" by (cases a)
  show ?case
  proof (cases "k' = n")
    case True
    with Cons.prems a have "n \<notin> fst ` set xs" "v' = v" by auto
    then have "filter (\<lambda>(a, _). a = n) xs = []" by (force simp: filter_empty_conv)
    with True a \<open>v' = v\<close> show ?thesis by simp
  next
    case False
    with Cons a show ?thesis by auto
  qed
qed

lemma distinct_filter_none:
  "map_of xs n = None \<Longrightarrow> filter (\<lambda>(a, _). a = n) xs = []"
  by (force simp: filter_empty_conv map_of_eq_None_iff)

lemma inj_Done: "inj (\<lambda>k. ''Done-'' @ k)"
  by (rule injI) simp

text \<open>Each step keeps the keys of the record distinct.\<close>

lemma add_delay_distinct:
  "add_delay options hs = Inr hs' \<Longrightarrow> distinct (map fst hs) \<Longrightarrow> distinct (map fst hs')"
  unfolding add_delay_def
  by (auto simp: distinct_update split: option.splits delay_option.splits if_splits sum.splits)

lemma add_notBefore_distinct:
  "add_notBefore options hs = Inr hs' \<Longrightarrow> distinct (map fst hs) \<Longrightarrow> distinct (map fst hs')"
  unfolding add_notBefore_def
  by (auto simp: distinct_update split: option.splits sum.splits)

lemma add_maxAttempts_distinct:
  "distinct (map fst hs) \<Longrightarrow> distinct (map fst (add_maxAttempts options hs))"
  unfolding add_maxAttempts_def
  by (auto simp: distinct_update split: option.splits)

lemma add_failureCallback_distinct:
  "distinct (map fst hs) \<Longrightarrow> distinct (map fst (add_failureCallback options hs))"
  unfolding add_failureCallback_def
  by (auto simp: distinct_update split: option.splits)

lemma add_custom_distinct:
  "distinct (map fst hs) \<Longrightarrow> distinct (map fst (add_custom options hs))"
  unfolding add_custom_def
  by (auto simp: fold_update_distinct split: option.splits)

text \<open>Each step changes the value of one name only; the loop, of the prefixed keys only.\<close>

lemma add_delay_lookup:
  "add_delay options hs = Inr hs' \<Longrightarrow>
   map_of hs' x =
     (if x = ''Done-Delay'' then
        (case Option.bind options delay of
           None \<Rightarrow> map_of hs x
         | Some (DelayString s) \<Rightarrow> if s = [] then map_of hs x else Some s
         | Some (DelayDate d) \<Rightarrow> (case toISOString d of Inl e \<Rightarrow> None | Inr s \<Rightarrow> Some s))
      else map_of hs x)"
  unfolding add_delay_def
  by (auto simp: update_conv' split: option.splits delay_option.splits if_splits sum.splits)

lemma add_notBefore_lookup:
  "add_notBefore options hs = Inr hs' \<Longrightarrow>
   map_of hs' x =
     (if x = ''Done-Not-Before'' then
        (case Option.bind options notBefore of
           None \<Rightarrow> map_of hs x
         | Some d \<Rightarrow> (case toISOString d of Inl e \<Rightarrow> None | Inr s \<Rightarrow> Some s))
      else map_of hs x)"
  unfolding add_notBefore_def
  by (auto simp: update_conv' split: option.splits sum.splits)

lemma add_maxAttempts_lookup:
  "map_of (add_maxAttempts options hs) x =
     (if x = ''Done-Max-Attempts'' then
        (case Option.bind options maxAttempts of
           None \<Rightarrow> map_of hs x
         | Some n \<Rightarrow> if n = 0 then map_of hs x else Some (Number_toString n))
      else map_of hs x)"
  unfolding add_maxAttempts_def
  by (auto simp: update_conv' split: option.splits)

lemma add_failureCallback_lookup:
  "map_of (add_failureCallback options hs) x =
     (if x = ''Done-Failure-Callback'' then
        (case Option.bind options failureCallback of
           None \<Rightarrow> map_of hs x
         | Some s \<Rightarrow> if s = [] then map_of hs x else Some s)
      else map_of hs x)"
  unfolding add_failureCallback_def
  by (auto simp: update_conv' split: option.splits)

lemma add_custom_other:
  "x \<notin> (\<lambda>k. ''Done-'' @ k) ` custom_keys options \<Longrightarrow>
   map_of (add_custom options hs) x = map_of hs x"
  unfolding add_custom_def custom_keys_def
  by (auto simp: fold_update_other split: option.splits)

lemma add_custom_member:
  "Option.bind options headers = Some entries \<Longrightarrow> distinct (map fst entries) \<Longrightarrow>
   (k, v) \<in> set entries \<Longrightarrow> map_of (add_custom options hs) (''Done-'' @ k) = Some v"
  unfolding add_custom_def
  using fold_update_member[OF inj_Done, of entries k v hs] by simp

text \<open>The steps of \<open>sendMessage_headers\<close>, named.\<close>

lemma sendMessage_headers_steps:
  assumes "sendMessage_headers cfg options = Inr hs"
  obtains h1 h2 where
    "add_delay options [(''Authorization'', ''Bearer '' @ authToken cfg),
                        (''Content-Type'', ''application/json'')] = Inr h1"
    "add_notBefore options h1 = Inr h2"
    "hs = add_custom options (add_failureCallback options (add_maxAttempts options h2))"
  using assms unfolding sendMessage_headers_def by (auto split: sum.splits)

lemma sendMessage_headers_distinct:
  assumes "sendMessage_headers cfg options = Inr hs"
  shows "distinct (map fst hs)"
proof -
  from assms obtain h1 h2 where
    h1: "add_delay options [(''Authorization'', ''Bearer '' @ authToken cfg),
                        (''Content-Type'', ''application/json'')] = Inr h1"
    and h2: "add_notBefore options h1 = Inr h2"
    and hs: "hs = add_custom options (add_failureCallback options (add_maxAttempts options h2))"
    by (rule sendMessage_headers_steps)
  have "distinct (map fst h1)" by (rule add_delay_distinct[OF h1]) simp
  from add_notBefore_distinct[OF h2 this] show ?thesis
    unfolding hs
    by (intro add_custom_distinct add_failureCallback_distinct add_maxAttempts_distinct)
qed

lemma toISOString_valid: "d \<noteq> InvalidDate \<Longrightarrow> \<exists>s. toISOString d = Inr s"
  by (cases d) simp_all

lemma add_delay_total:
  assumes "dates_valid options"
  shows "\<exists>h1. add_delay options hs = Inr h1"
proof (cases "Option.bind options delay")
  case None
  then show ?thesis by (simp add: add_delay_def)
next
  case (Some x)
  show ?thesis
  proof (cases x)
    case (DelayString s)
    with Some show ?thesis by (simp add: add_delay_def)
  next
    case (DelayDate d)
    with Some assms have "d \<noteq> InvalidDate" by (auto simp: dates_valid_def)
    from toISOString_valid[OF this] Some DelayDate show ?thesis
      by (auto simp: add_delay_def)
  qed
qed

lemma add_notBefore_total:
  assumes "dates_valid options"
  shows "\<exists>h2. add_notBefore options hs = Inr h2"
proof (cases "Option.bind options notBefore")
  case None
  then show ?thesis by (simp add: add_notBefore_def)
next
  case (Some d)
  with assms have "d \<noteq> InvalidDate" by (auto simp: dates_valid_def)
  from toISOString_valid[OF this] Some show ?thesis
    by (auto simp: add_notBefore_def)
qed

lemma sendMessage_headers_total:
  assumes "dates_valid options"
  shows "\<exists>hs. sendMessage_headers cfg options = Inr hs"
proof -
  obtain h1 where "add_delay options [(''Authorization'', ''Bearer '' @ authToken cfg),
                        (''Content-Type'', ''application/json'')] = Inr h1"
    using add_delay_total[OF assms] by blast
  moreover obtain h2 where "add_notBefore options h1 = Inr h2"
    using add_notBefore_total[OF assms] by blast
  ultimately show ?thesis
    unfolding sendMessage_headers_def by simp
qed

lemma sendMessage_headers_fixed:
  assumes "sendMessage_headers cfg options = Inr hs"
  shows "map_of hs ''Authorization'' = Some (''Bearer '' @ authToken cfg)"
    and "map_of hs ''Content-Type'' = Some ''application/json''"
proof -
  from assms obtain h1 h2 where
    h1: "add_delay options [(''Authorization'', ''Bearer '' @ authToken cfg),
                        (''Content-Type'', ''application/json'')] = Inr h1"
    and h2: "add_notBefore options h1 = Inr h2"
    and hs: "hs = add_custom options (add_failureCallback options (add_maxAttempts options h2))"
    by (rule sendMessage_headers_steps)
  have a: "''Authorization'' \<notin> (\<lambda>k. ''Done-'' @ k) ` custom_keys options"
    and c: "''Content-Type'' \<notin> (\<lambda>k. ''Done-'' @ k) ` custom_keys options"
    by auto
  show "map_of hs ''Authorization'' = Some (''Bearer '' @ authToken cfg)"
    unfolding hs
    by (simp add: add_custom_other[OF a] add_failureCallback_lookup add_maxAttempts_lookup
        add_notBefore_lookup[OF h2] add_delay_lookup[OF h1])
  show "map_of hs ''Content-Type'' = Some ''application/json''"
    unfolding hs
    by (simp add: add_custom_other[OF c] add_failureCallback_lookup add_maxAttempts_lookup
        add_notBefore_lookup[OF h2] add_delay_lookup[OF h1])
qed

lemma sendMessage_trace:
  "snd (sendMessage h c u b options) =
     (case sendMessage_request h c u b options of Inl e \<Rightarrow> [] | Inr req \<Rightarrow> [req])"
  by (simp add: sendMessage_def split: sum.splits)

lemma sendMessage_issued:
  assumes "req \<in> set (snd (sendMessage h c u b options))"
  shows "\<exists>hs payload. sendMessage_headers (config c) options = Inr hs \<and>
           sendMessage_payload h b = Inr payload \<and>
           req = \<lparr>url = baseUrl (config c) @ ''/v1/'' @ u, init_method = Some ''POST'',
                  init_headers = hs, init_body = payload\<rparr>"
  using assms unfolding sendMessage_trace sendMessage_request_def
  by (auto split: sum.splits)

section \<open>Construction (C9)\<close>

text \<open>
  C9.  For all strings \<open>b\<close> and \<open>t\<close>, the client made by the static factory
  \<^verbatim>\<open>DoneClient.create(b, t)\<close> is the client made by \<^verbatim>\<open>new DoneClient({baseUrl: b, authToken: t})\<close>,
  and each of the three operations gives, on either, the same outcome and the same
  requests for the same arguments and the same host.
\<close>

theorem create_equals_constructor:
  "create b t = DoneClient_new \<lparr>baseUrl = b, authToken = t\<rparr> \<and>
   sendMessage h (create b t) u body options =
     sendMessage h (DoneClient_new \<lparr>baseUrl = b, authToken = t\<rparr>) u body options \<and>
   getMessage h (create b t) mid =
     getMessage h (DoneClient_new \<lparr>baseUrl = b, authToken = t\<rparr>) mid \<and>
   getMessagesByStatus h (create b t) st =
     getMessagesByStatus h (DoneClient_new \<lparr>baseUrl = b, authToken = t\<rparr>) st"
  by (simp add: create_def)

section \<open>The request of \<^verbatim>\<open>sendMessage\<close> (C1)\<close>

lemma test_client_config:
  "config test_client = \<lparr>baseUrl = ''https://api.example.com'', authToken = ''test-token''\<rparr>"
  by (simp add: test_client_def create_def DoneClient_new_def)

lemma falsy_body_request:
  "snd (sendMessage (test_host response_sent) test_client ''webhook-url'' (JNum 0) None) =
     [\<lparr>url = ''https://api.example.com/v1/webhook-url'', init_method = Some ''POST'',
       init_headers = [(''Authorization'', ''Bearer test-token''),
                       (''Content-Type'', ''application/json'')],
       init_body = None\<rparr>]"
  by code_simp

lemma falsy_body_text: "JSON_stringify (test_host response_sent) (JNum 0) = Inr (Some ''0'')"
  by code_simp

text \<open>
  C1 as stated fails: the body \<^verbatim>\<open>0\<close> is present, its JSON serialization is the text
  \<^verbatim>\<open>0\<close>, and the request goes out with no payload.
\<close>

theorem falsy_body_not_sent:
  "snd (sendMessage (test_host response_sent) test_client ''webhook-url'' (JNum 0) None) =
     [\<lparr>url = ''https://api.example.com/v1/webhook-url'', init_method = Some ''POST'',
       init_headers = [(''Authorization'', ''Bearer test-token''),
                       (''Content-Type'', ''application/json'')],
       init_body = None\<rparr>] \<and>
   JSON_stringify (test_host response_sent) (JNum 0) = Inr (Some ''0'')"
  using falsy_body_request falsy_body_text by simp

text \<open>An invalid date among the options: \<^verbatim>\<open>toISOString\<close> throws and nothing is sent.\<close>

lemma invalid_date_no_request:
  "sendMessage (test_host response_sent) test_client ''webhook-url'' test_body
     (Some (no_options\<lparr>notBefore := Some InvalidDate\<rparr>)) = (Inl RangeError, [])"
  by code_simp

text \<open>
  A truthy body on which \<^verbatim>\<open>JSON.stringify\<close> throws: the call fails with that error and
  nothing is sent.  The bigint \<^verbatim>\<open>1n\<close> is such a body, alone or inside an object.
\<close>

lemma stringify_throws_no_request:
  assumes "ToBoolean body" and "JSON_stringify h body = Inl e"
  shows "snd (sendMessage h c u body options) = []"
    and "\<exists>e'. fst (sendMessage h c u body options) = Inl e'"
  using assms
  by (simp_all add: sendMessage_def sendMessage_request_def sendMessage_payload_def
      split: sum.splits)

lemma bigint_body_no_request:
  "sendMessage (test_host response_sent) test_client ''webhook-url'' (JBigInt 1) None =
     (Inl TypeError, [])"
  "sendMessage (test_host response_sent) test_client ''webhook-url''
     (JObj [(''count'', JBigInt 1)]) None = (Inl TypeError, [])"
  by code_simp+

text \<open>
  A truthy body for which \<^verbatim>\<open>JSON.stringify\<close> returns \<^verbatim>\<open>undefined\<close>: the request is sent
  without a payload.
\<close>

lemma symbol_body_no_payload:
  "snd (sendMessage (test_host response_sent) test_client ''webhook-url'' JSymbol None) =
     [\<lparr>url = ''https://api.example.com/v1/webhook-url'', init_method = Some ''POST'',
       init_headers = [(''Authorization'', ''Bearer test-token''),
                       (''Content-Type'', ''application/json'')],
       init_body = None\<rparr>]"
  by code_simp

text \<open>
  C1, amended.  For every call of \<^verbatim>\<open>sendMessage\<close> whose options hold no invalid date and
  on whose body, when it is truthy, \<^verbatim>\<open>JSON.stringify\<close> does not throw, exactly one
  request is handed to \<^verbatim>\<open>fetch\<close>: a POST to the base URL, \<^verbatim>\<open>/v1/\<close> and the callback URL
  concatenated, whose header record has exactly one \<^verbatim>\<open>Authorization\<close> entry, \<^verbatim>\<open>Bearer\<close>
  and the token, and exactly one \<^verbatim>\<open>Content-Type\<close> entry, \<^verbatim>\<open>application/json\<close>.  Its
  payload is what \<^verbatim>\<open>JSON.stringify(body)\<close> returned when the body is truthy (the JSON
  text, or no payload where that is \<^verbatim>\<open>undefined\<close>); there is no payload when the body
  is omitted or is another falsy value (\<^verbatim>\<open>null\<close>, \<^verbatim>\<open>false\<close>, \<^verbatim>\<open>0\<close>, \<^verbatim>\<open>0n\<close>, the empty
  string).
\<close>

theorem enqueue_request:
  assumes "dates_valid options"
    and "ToBoolean body \<longrightarrow> JSON_stringify h body = Inr payload"
  shows "\<exists>hs. snd (sendMessage h c u body options) =
                 [\<lparr>url = baseUrl (config c) @ ''/v1/'' @ u,
                   init_method = Some ''POST'',
                   init_headers = hs,
                   init_body = (if ToBoolean body then payload else None)\<rparr>] \<and>
              filter (\<lambda>(name, _). name = ''Authorization'') hs =
                 [(''Authorization'', ''Bearer '' @ authToken (config c))] \<and>
              filter (\<lambda>(name, _). name = ''Content-Type'') hs =
                 [(''Content-Type'', ''application/json'')]"
proof -
  from sendMessage_headers_total[OF assms(1)]
  obtain hs where hs: "sendMessage_headers (config c) options = Inr hs" by blast
  have p: "sendMessage_payload h body = Inr (if ToBoolean body then payload else None)"
    using assms(2) by (simp add: sendMessage_payload_def)
  have "snd (sendMessage h c u body options) =
          [\<lparr>url = baseUrl (config c) @ ''/v1/'' @ u, init_method = Some ''POST'',
            init_headers = hs,
            init_body = (if ToBoolean body then payload else None)\<rparr>]"
    by (simp add: sendMessage_trace sendMessage_request_def hs p)
  moreover note distinct_filter_key[OF sendMessage_headers_distinct[OF hs]
      sendMessage_headers_fixed(1)[OF hs]]
    distinct_filter_key[OF sendMessage_headers_distinct[OF hs]
      sendMessage_headers_fixed(2)[OF hs]]
  ultimately show ?thesis by blast
qed

lemma basic_payload_request:
  "snd (sendMessage (test_host response_sent) test_client ''webhook-url'' test_body None) =
     [\<lparr>url = ''https://api.example.com/v1/webhook-url'', init_method = Some ''POST'',
       init_headers = [(''Authorization'', ''Bearer test-token''),
                       (''Content-Type'', ''application/json'')],
       init_body = Some (''{'' @ quote ''test'' @ '':'' @ quote ''data'' @ ''}'')\<rparr>]"
  by code_simp

lemma test_body_text:
  "JSON_stringify (test_host r) test_body =
     Inr (Some (''{'' @ quote ''test'' @ '':'' @ quote ''data'' @ ''}''))"
  by (simp add: test_host_def stringify_def test_body_def)

theorem enqueue_request_witness:
  "dates_valid (Some all_options) \<and> notBefore all_options = Some (TimeValue 1704103200000) \<and>
   ToBoolean test_body \<and>
   JSON_stringify (test_host response_sent) test_body =
     Inr (Some (''{'' @ quote ''test'' @ '':'' @ quote ''data'' @ ''}'')) \<and>
   (\<exists>hs. snd (sendMessage (test_host response_sent) test_client ''webhook-url'' test_body
                 (Some all_options)) =
            [\<lparr>url = ''https://api.example.com/v1/webhook-url'',
              init_method = Some ''POST'',
              init_headers = hs,
              init_body = Some (''{'' @ quote ''test'' @ '':'' @ quote ''data'' @ ''}'')\<rparr>] \<and>
          filter (\<lambda>(name, _). name = ''Authorization'') hs =
            [(''Authorization'', ''Bearer test-token'')] \<and>
          filter (\<lambda>(name, _). name = ''Content-Type'') hs =
            [(''Content-Type'', ''application/json'')])"
proof -
  have v: "dates_valid (Some all_options)" "notBefore all_options = Some (TimeValue 1704103200000)"
    by (simp_all add: dates_valid_def all_options_def)
  have t: "ToBoolean test_body" by (simp add: test_body_def)
  have s: "ToBoolean test_body \<longrightarrow>
           JSON_stringify (test_host response_sent) test_body =
             Inr (Some (''{'' @ quote ''test'' @ '':'' @ quote ''data'' @ ''}''))"
    by (simp add: test_body_text)
  from enqueue_request[OF v(1) s, of test_client "''webhook-url''"]
  show ?thesis
    using v t by (simp add: test_client_config test_body_text)
qed

section \<open>Custom headers (C3, C10)\<close>

text \<open>
  C3.  For every call of \<^verbatim>\<open>sendMessage\<close> and every entry \<open>(K, V)\<close> of the custom-headers
  record (a record: each key once), the header record of the request has exactly one
  entry named \<^verbatim>\<open>Done-\<close>\<open>K\<close>, and its value is \<open>V\<close>.
\<close>

theorem custom_headers_forwarded:
  assumes "req \<in> set (snd (sendMessage h c u body options))"
    and "Option.bind options headers = Some entries"
    and "distinct (map fst entries)"
    and "(K, V) \<in> set entries"
  shows "filter (\<lambda>(name, _). name = ''Done-'' @ K) (init_headers req) = [(''Done-'' @ K, V)]"
proof -
  from sendMessage_issued[OF assms(1)] obtain hs where
    hs: "sendMessage_headers (config c) options = Inr hs" and req: "init_headers req = hs"
    by auto
  from hs obtain x where "hs = add_custom options x"
    by (rule sendMessage_headers_steps)
  with add_custom_member[OF assms(2,3,4)] have "map_of hs (''Done-'' @ K) = Some V"
    by simp
  from distinct_filter_key[OF sendMessage_headers_distinct[OF hs] this] req
  show ?thesis by simp
qed

lemma all_options_request:
  "snd (sendMessage (test_host response_sent) test_client ''webhook-url'' test_body
          (Some all_options)) =
     [\<lparr>url = ''https://api.example.com/v1/webhook-url'', init_method = Some ''POST'',
       init_headers =
         [(''Authorization'', ''Bearer test-token''),
          (''Content-Type'', ''application/json''),
          (''Done-Not-Before'', ''2024-01-01T10:00:00.000Z''),
          (''Done-Max-Attempts'', ''5''),
          (''Done-Failure-Callback'', ''https://fail.example.com''),
          (''Done-Custom-Header'', ''custom-value'')],
       init_body = Some (''{'' @ quote ''test'' @ '':'' @ quote ''data'' @ ''}'')\<rparr>]"
  by code_simp

theorem custom_headers_forwarded_witness:
  "snd (sendMessage (test_host response_sent) test_client ''webhook-url'' test_body
          (Some all_options)) =
     [\<lparr>url = ''https://api.example.com/v1/webhook-url'', init_method = Some ''POST'',
       init_headers =
         [(''Authorization'', ''Bearer test-token''),
          (''Content-Type'', ''application/json''),
          (''Done-Not-Before'', ''2024-01-01T10:00:00.000Z''),
          (''Done-Max-Attempts'', ''5''),
          (''Done-Failure-Callback'', ''https://fail.example.com''),
          (''Done-Custom-Header'', ''custom-value'')],
       init_body = Some (''{'' @ quote ''test'' @ '':'' @ quote ''data'' @ ''}'')\<rparr>] \<and>
   filter (\<lambda>(name, _). name = ''Done-Custom-Header'')
     [(''Authorization'', ''Bearer test-token''),
      (''Content-Type'', ''application/json''),
      (''Done-Not-Before'', ''2024-01-01T10:00:00.000Z''),
      (''Done-Max-Attempts'', ''5''),
      (''Done-Failure-Callback'', ''https://fail.example.com''),
      (''Done-Custom-Header'', ''custom-value'')] =
     [(''Done-Custom-Header'', ''custom-value'')]"
  using custom_headers_forwarded[of _ "test_host response_sent" test_client "''webhook-url''"
      test_body "Some all_options" "[(''Custom-Header'', ''custom-value'')]"
      "''Custom-Header''" "''custom-value''"]
  by (simp add: all_options_request) 

text \<open>The steps before the loop do not look at the custom headers.\<close>

lemma steps_ignore_custom:
  "add_delay (Some (opts\<lparr>headers := None\<rparr>)) = add_delay (Some opts)"
  "add_notBefore (Some (opts\<lparr>headers := None\<rparr>)) = add_notBefore (Some opts)"
  "add_maxAttempts (Some (opts\<lparr>headers := None\<rparr>)) = add_maxAttempts (Some opts)"
  "add_failureCallback (Some (opts\<lparr>headers := None\<rparr>)) = add_failureCallback (Some opts)"
  "add_custom (Some (opts\<lparr>headers := None\<rparr>)) hs = hs"
  by (simp_all add: add_delay_def add_notBefore_def add_maxAttempts_def add_failureCallback_def
      add_custom_def fun_eq_iff)

lemma sendMessage_headers_custom_last:
  assumes "sendMessage_headers cfg (Some (opts\<lparr>headers := None\<rparr>)) = Inr base"
    and "headers opts = Some entries"
  shows "sendMessage_headers cfg (Some opts) =
           Inr (fold (\<lambda>(key, v). AList.update (''Done-'' @ key) v) entries base)"
proof -
  from assms(1) obtain h1 h2 where
    h1: "add_delay (Some opts) [(''Authorization'', ''Bearer '' @ authToken cfg),
                        (''Content-Type'', ''application/json'')] = Inr h1"
    and h2: "add_notBefore (Some opts) h1 = Inr h2"
    and base: "base = add_failureCallback (Some opts) (add_maxAttempts (Some opts) h2)"
    by (rule sendMessage_headers_steps) (simp add: steps_ignore_custom)
  from h1 h2 show ?thesis
    unfolding sendMessage_headers_def
    by (simp add: base add_custom_def assms(2))
qed

text \<open>
  C10.  Take the header record that the call would build with the same options but
  no custom headers: the fixed and the control headers.  The header record of the
  request that the call issues is that record with the custom entries assigned on top
  of it, each under its key prefixed with \<^verbatim>\<open>Done-\<close>.  So for every custom entry
  \<open>(K, V)\<close> whose prefixed name is one of \<^verbatim>\<open>Done-Delay\<close>, \<^verbatim>\<open>Done-Not-Before\<close>,
  \<^verbatim>\<open>Done-Max-Attempts\<close>, \<^verbatim>\<open>Done-Failure-Callback\<close> and is already set to some \<open>W\<close> by the
  options of the call, the request carries \<open>V\<close> under that name, and nothing else.
\<close>

theorem custom_header_wins:
  assumes "req \<in> set (snd (sendMessage h c u body (Some opts)))"
    and "sendMessage_headers (config c) (Some (opts\<lparr>headers := None\<rparr>)) = Inr base"
    and "headers opts = Some entries"
    and "distinct (map fst entries)"
    and "(K, V) \<in> set entries"
    and "K \<in> {''Delay'', ''Not-Before'', ''Max-Attempts'', ''Failure-Callback''}"
    and "map_of base (''Done-'' @ K) = Some W"
  shows "init_headers req = fold (\<lambda>(key, v). AList.update (''Done-'' @ key) v) entries base \<and>
         filter (\<lambda>(name, _). name = ''Done-'' @ K) (init_headers req) = [(''Done-'' @ K, V)]"
proof -
  let ?hs = "fold (\<lambda>(key, v). AList.update (''Done-'' @ key) v) entries base"
  have hs: "sendMessage_headers (config c) (Some opts) = Inr ?hs"
    by (rule sendMessage_headers_custom_last[OF assms(2,3)])
  from sendMessage_issued[OF assms(1)] hs have req: "init_headers req = ?hs"
    by auto
  have "map_of ?hs (''Done-'' @ K) = Some V"
    by (rule fold_update_member[OF inj_Done assms(4,5)])
  from distinct_filter_key[OF sendMessage_headers_distinct[OF hs] this] req
  show ?thesis
    by simp
qed

lemma colliding_delay_base:
  "sendMessage_headers (config test_client) (Some (colliding_delay\<lparr>headers := None\<rparr>)) =
     Inr [(''Authorization'', ''Bearer test-token''),
          (''Content-Type'', ''application/json''),
          (''Done-Delay'', ''5m'')]"
  by code_simp

lemma colliding_delay_request:
  "snd (sendMessage (test_host response_sent) test_client ''webhook-url'' test_body
          (Some colliding_delay)) =
     [\<lparr>url = ''https://api.example.com/v1/webhook-url'', init_method = Some ''POST'',
       init_headers =
         [(''Authorization'', ''Bearer test-token''),
          (''Content-Type'', ''application/json''),
          (''Done-Delay'', ''10m'')],
       init_body = Some (''{'' @ quote ''test'' @ '':'' @ quote ''data'' @ ''}'')\<rparr>]"
  by code_simp

theorem custom_header_wins_witness:
  "snd (sendMessage (test_host response_sent) test_client ''webhook-url'' test_body
          (Some colliding_delay)) =
     [\<lparr>url = ''https://api.example.com/v1/webhook-url'', init_method = Some ''POST'',
       init_headers =
         [(''Authorization'', ''Bearer test-token''),
          (''Content-Type'', ''application/json''),
          (''Done-Delay'', ''10m'')],
       init_body = Some (''{'' @ quote ''test'' @ '':'' @ quote ''data'' @ ''}'')\<rparr>] \<and>
   sendMessage_headers (config test_client) (Some (colliding_delay\<lparr>headers := None\<rparr>)) =
     Inr [(''Authorization'', ''Bearer test-token''),
          (''Content-Type'', ''application/json''),
          (''Done-Delay'', ''5m'')] \<and>
   headers colliding_delay = Some [(''Delay'', ''10m'')] \<and>
   filter (\<lambda>(name, _). name = ''Done-Delay'')
     [(''Authorization'', ''Bearer test-token''),
      (''Content-Type'', ''application/json''),
      (''Done-Delay'', ''10m'')] = [(''Done-Delay'', ''10m'')]"
proof -
  have e: "headers colliding_delay = Some [(''Delay'', ''10m'')]"
    by (simp add: colliding_delay_def no_options_def)
  from custom_header_wins[where h = "test_host response_sent" and c = test_client
      and u = "''webhook-url''" and body = test_body and opts = colliding_delay
      and K = "''Delay''" and V = "''10m''" and W = "''5m''", OF _ colliding_delay_base e]
  show ?thesis
    by (simp add: colliding_delay_base e colliding_delay_request)
qed

section \<open>The control headers (C2, C4)\<close>

lemma lookup_delay:
  assumes "sendMessage_headers cfg options = Inr hs" and "''Delay'' \<notin> custom_keys options"
  shows "map_of hs ''Done-Delay'' =
           (case Option.bind options delay of
              None \<Rightarrow> None
            | Some (DelayString s) \<Rightarrow> if s = [] then None else Some s
            | Some (DelayDate d) \<Rightarrow> (case toISOString d of Inl e \<Rightarrow> None | Inr s \<Rightarrow> Some s))"
proof -
  from assms(1) obtain h1 h2 where
    h1: "add_delay options [(''Authorization'', ''Bearer '' @ authToken cfg),
                        (''Content-Type'', ''application/json'')] = Inr h1"
    and h2: "add_notBefore options h1 = Inr h2"
    and hs: "hs = add_custom options (add_failureCallback options (add_maxAttempts options h2))"
    by (rule sendMessage_headers_steps)
  from assms(2) have k: "''Done-Delay'' \<notin> (\<lambda>k. ''Done-'' @ k) ` custom_keys options" by auto
  show ?thesis
    by (simp add: hs add_custom_other[OF k] add_failureCallback_lookup add_maxAttempts_lookup
        add_notBefore_lookup[OF h2] add_delay_lookup[OF h1]
        split: option.splits delay_option.splits)
qed

lemma lookup_notBefore:
  assumes "sendMessage_headers cfg options = Inr hs" and "''Not-Before'' \<notin> custom_keys options"
  shows "map_of hs ''Done-Not-Before'' =
           (case Option.bind options notBefore of
              None \<Rightarrow> None
            | Some d \<Rightarrow> (case toISOString d of Inl e \<Rightarrow> None | Inr s \<Rightarrow> Some s))"
proof -
  from assms(1) obtain h1 h2 where
    h1: "add_delay options [(''Authorization'', ''Bearer '' @ authToken cfg),
                        (''Content-Type'', ''application/json'')] = Inr h1"
    and h2: "add_notBefore options h1 = Inr h2"
    and hs: "hs = add_custom options (add_failureCallback options (add_maxAttempts options h2))"
    by (rule sendMessage_headers_steps)
  from assms(2) have k: "''Done-Not-Before'' \<notin> (\<lambda>k. ''Done-'' @ k) ` custom_keys options"
    by auto
  show ?thesis
    by (simp add: hs add_custom_other[OF k] add_failureCallback_lookup add_maxAttempts_lookup
        add_notBefore_lookup[OF h2] add_delay_lookup[OF h1]
        split: option.splits)
qed

lemma lookup_maxAttempts:
  assumes "sendMessage_headers cfg options = Inr hs" and "''Max-Attempts'' \<notin> custom_keys options"
  shows "map_of hs ''Done-Max-Attempts'' =
           (case Option.bind options maxAttempts of
              None \<Rightarrow> None
            | Some n \<Rightarrow> if n = 0 then None else Some (Number_toString n))"
proof -
  from assms(1) obtain h1 h2 where
    h1: "add_delay options [(''Authorization'', ''Bearer '' @ authToken cfg),
                        (''Content-Type'', ''application/json'')] = Inr h1"
    and h2: "add_notBefore options h1 = Inr h2"
    and hs: "hs = add_custom options (add_failureCallback options (add_maxAttempts options h2))"
    by (rule sendMessage_headers_steps)
  from assms(2) have k: "''Done-Max-Attempts'' \<notin> (\<lambda>k. ''Done-'' @ k) ` custom_keys options"
    by auto
  show ?thesis
    by (simp add: hs add_custom_other[OF k] add_failureCallback_lookup add_maxAttempts_lookup
        add_notBefore_lookup[OF h2] add_delay_lookup[OF h1]
        split: option.splits)
qed

lemma lookup_failureCallback:
  assumes "sendMessage_headers cfg options = Inr hs"
    and "''Failure-Callback'' \<notin> custom_keys options"
  shows "map_of hs ''Done-Failure-Callback'' =
           (case Option.bind options failureCallback of
              None \<Rightarrow> None
            | Some s \<Rightarrow> if s = [] then None else Some s)"
proof -
  from assms(1) obtain h1 h2 where
    h1: "add_delay options [(''Authorization'', ''Bearer '' @ authToken cfg),
                        (''Content-Type'', ''application/json'')] = Inr h1"
    and h2: "add_notBefore options h1 = Inr h2"
    and hs: "hs = add_custom options (add_failureCallback options (add_maxAttempts options h2))"
    by (rule sendMessage_headers_steps)
  from assms(2) have k: "''Done-Failure-Callback'' \<notin> (\<lambda>k. ''Done-'' @ k) ` custom_keys options"
    by auto
  show ?thesis
    by (simp add: hs add_custom_other[OF k] add_failureCallback_lookup add_maxAttempts_lookup
        add_notBefore_lookup[OF h2] add_delay_lookup[OF h1]
        split: option.splits)
qed

lemma headers_issued_valid:
  assumes "sendMessage_headers cfg options = Inr hs"
  shows "dates_valid options"
proof -
  from assms obtain h1 h2 where
    h1: "add_delay options [(''Authorization'', ''Bearer '' @ authToken cfg),
                        (''Content-Type'', ''application/json'')] = Inr h1"
    and h2: "add_notBefore options h1 = Inr h2"
    by (rule sendMessage_headers_steps)
  from h1 have "Option.bind options delay \<noteq> Some (DelayDate InvalidDate)"
    by (auto simp: add_delay_def)
  moreover from h2 have "Option.bind options notBefore \<noteq> Some InvalidDate"
    by (auto simp: add_notBefore_def)
  ultimately show ?thesis by (simp add: dates_valid_def)
qed

lemma filter_key_le_1:
  "distinct (map fst xs) \<Longrightarrow> length (filter (\<lambda>(a, _). a = n) xs) \<le> 1"
  by (cases "map_of xs n") (simp_all add: distinct_filter_none distinct_filter_key)

text \<open>
  C2 as stated fails: the delay is the string \<^verbatim>\<open>5m\<close>, the custom headers have the
  key \<^verbatim>\<open>Delay\<close>, and the request carries \<^verbatim>\<open>Done-Delay: 10m\<close>.
\<close>

theorem string_delay_overridden:
  "delay colliding_delay = Some (DelayString ''5m'') \<and>
   headers colliding_delay = Some [(''Delay'', ''10m'')] \<and>
   snd (sendMessage (test_host response_sent) test_client ''webhook-url'' test_body
          (Some colliding_delay)) =
     [\<lparr>url = ''https://api.example.com/v1/webhook-url'', init_method = Some ''POST'',
       init_headers =
         [(''Authorization'', ''Bearer test-token''),
          (''Content-Type'', ''application/json''),
          (''Done-Delay'', ''10m'')],
       init_body = Some (''{'' @ quote ''test'' @ '':'' @ quote ''data'' @ ''}'')\<rparr>]"
  using colliding_delay_request by (simp add: colliding_delay_def no_options_def)

text \<open>The empty string is a string, and falsy: no header is set for it.\<close>

lemma empty_delay_no_header:
  "snd (sendMessage (test_host response_sent) test_client ''webhook-url'' test_body
          (Some (no_options\<lparr>delay := Some (DelayString [])\<rparr>))) =
     [\<lparr>url = ''https://api.example.com/v1/webhook-url'', init_method = Some ''POST'',
       init_headers =
         [(''Authorization'', ''Bearer test-token''),
          (''Content-Type'', ''application/json'')],
       init_body = Some (''{'' @ quote ''test'' @ '':'' @ quote ''data'' @ ''}'')\<rparr>]"
  by code_simp

text \<open>
  C2, amended.  For every request that a call of \<^verbatim>\<open>sendMessage\<close> issues, when the custom
  headers of the call have no key \<^verbatim>\<open>Delay\<close>: a delay that is a non-empty string is the
  value of \<^verbatim>\<open>Done-Delay\<close>, unchanged; a delay that is a \<^verbatim>\<open>Date\<close> is a valid date and
  its \<^verbatim>\<open>toISOString()\<close> is the value of \<^verbatim>\<open>Done-Delay\<close>; with no delay, or the empty
  string, there is no \<^verbatim>\<open>Done-Delay\<close>; and the header record never has two entries of
  that name.
\<close>

theorem delay_header:
  assumes "req \<in> set (snd (sendMessage h c u body options))"
    and "''Delay'' \<notin> custom_keys options"
  shows "(\<forall>s. Option.bind options delay = Some (DelayString s) \<and> s \<noteq> [] \<longrightarrow>
            map_of (init_headers req) ''Done-Delay'' = Some s) \<and>
         (\<forall>d. Option.bind options delay = Some (DelayDate d) \<longrightarrow>
            (\<exists>s. toISOString d = Inr s \<and> map_of (init_headers req) ''Done-Delay'' = Some s)) \<and>
         (Option.bind options delay = None \<or> Option.bind options delay = Some (DelayString []) \<longrightarrow>
            map_of (init_headers req) ''Done-Delay'' = None) \<and>
         length (filter (\<lambda>(name, _). name = ''Done-Delay'') (init_headers req)) \<le> 1"
proof -
  from sendMessage_issued[OF assms(1)] obtain hs where
    hs: "sendMessage_headers (config c) options = Inr hs" and req: "init_headers req = hs"
    by auto
  note look = lookup_delay[OF hs assms(2)]
  from headers_issued_valid[OF hs]
  have valid: "Option.bind options delay = Some (DelayDate d) \<Longrightarrow> \<exists>s. toISOString d = Inr s" for d
    by (cases d) (auto simp: dates_valid_def)
  have "\<exists>s. toISOString d = Inr s \<and> map_of hs ''Done-Delay'' = Some s"
    if "Option.bind options delay = Some (DelayDate d)" for d
    using valid[OF that] that by (auto simp: look)
  moreover have "map_of hs ''Done-Delay'' = Some s"
    if "Option.bind options delay = Some (DelayString s) \<and> s \<noteq> []" for s
    using that by (simp add: look)
  moreover have "map_of hs ''Done-Delay'' = None"
    if "Option.bind options delay = None \<or> Option.bind options delay = Some (DelayString [])"
    using that by (auto simp: look)
  moreover note filter_key_le_1[OF sendMessage_headers_distinct[OF hs], of "''Done-Delay''"]
  ultimately show ?thesis unfolding req by blast
qed

lemma delay_5m_request:
  "snd (sendMessage (test_host response_sent) test_client ''webhook-url'' test_body
          (Some delay_5m)) =
     [\<lparr>url = ''https://api.example.com/v1/webhook-url'', init_method = Some ''POST'',
       init_headers =
         [(''Authorization'', ''Bearer test-token''),
          (''Content-Type'', ''application/json''),
          (''Done-Delay'', ''5m'')],
       init_body = Some (''{'' @ quote ''test'' @ '':'' @ quote ''data'' @ ''}'')\<rparr>]"
  by code_simp

lemma delay_date_request:
  "snd (sendMessage (test_host response_sent) test_client ''webhook-url'' test_body
          (Some delay_date)) =
     [\<lparr>url = ''https://api.example.com/v1/webhook-url'', init_method = Some ''POST'',
       init_headers =
         [(''Authorization'', ''Bearer test-token''),
          (''Content-Type'', ''application/json''),
          (''Done-Delay'', ''2024-01-01T15:00:00.000Z'')],
       init_body = Some (''{'' @ quote ''test'' @ '':'' @ quote ''data'' @ ''}'')\<rparr>]"
  by code_simp

theorem delay_header_witness:
  "snd (sendMessage (test_host response_sent) test_client ''webhook-url'' test_body
          (Some delay_5m)) =
     [\<lparr>url = ''https://api.example.com/v1/webhook-url'', init_method = Some ''POST'',
       init_headers =
         [(''Authorization'', ''Bearer test-token''),
          (''Content-Type'', ''application/json''),
          (''Done-Delay'', ''5m'')],
       init_body = Some (''{'' @ quote ''test'' @ '':'' @ quote ''data'' @ ''}'')\<rparr>] \<and>
   ''Delay'' \<notin> custom_keys (Some delay_5m) \<and>
   delay delay_5m = Some (DelayString ''5m'') \<and>
   map_of [(''Authorization'', ''Bearer test-token''),
           (''Content-Type'', ''application/json''),
           (''Done-Delay'', ''5m'')] ''Done-Delay'' = Some ''5m''"
proof -
  have k: "''Delay'' \<notin> custom_keys (Some delay_5m)"
    by (simp add: custom_keys_def delay_5m_def no_options_def)
  have d: "delay delay_5m = Some (DelayString ''5m'')"
    by (simp add: delay_5m_def no_options_def)
  from delay_header[of _ "test_host response_sent" test_client "''webhook-url''" test_body
      "Some delay_5m", OF _ k]
  show ?thesis
    using k d by (simp add: delay_5m_request)
qed


subsection \<open>Decimal digits\<close>

lemma digit_val_digit_char: "digit_val (digit_char n) = Some (n mod 10)"
proof -
  have "n mod 10 < 10" by simp
  then consider "n mod 10 = 0" | "n mod 10 = 1" | "n mod 10 = 2" | "n mod 10 = 3"
    | "n mod 10 = 4" | "n mod 10 = 5" | "n mod 10 = 6" | "n mod 10 = 7" | "n mod 10 = 8"
    | "n mod 10 = 9"
    by atomize_elim presburger
  then show ?thesis
    by cases (simp_all add: digit_char_def digit_val_def)
qed

lemma decimal_value_snoc:
  "decimal_value (s @ [c]) = 10 * decimal_value s + (case digit_val c of None \<Rightarrow> 0 | Some v \<Rightarrow> v)"
  by (simp add: decimal_value_def)

lemma decimal_value_show_nat: "decimal_value (show_nat n) = n"
proof (induction n rule: show_nat.induct)
  case (1 n)
  show ?case
  proof (cases "n < 10")
    case True
    then show ?thesis
      by (simp add: show_nat.simps[of n] decimal_value_def digit_val_digit_char)
  next
    case False
    with 1 show ?thesis
      by (simp add: show_nat.simps[of n] decimal_value_snoc digit_val_digit_char)
  qed
qed

lemma Number_toString_positive:
  "0 < n \<Longrightarrow> Number_toString n = show_nat (nat n) \<and> decimal_value (Number_toString n) = nat n"
  by (simp add: Number_toString_def decimal_value_show_nat)

subsection \<open>C4\<close>

lemma colliding_attempts_request:
  "snd (sendMessage (test_host response_sent) test_client ''webhook-url'' test_body
          (Some colliding_attempts)) =
     [\<lparr>url = ''https://api.example.com/v1/webhook-url'', init_method = Some ''POST'',
       init_headers =
         [(''Authorization'', ''Bearer test-token''),
          (''Content-Type'', ''application/json''),
          (''Done-Max-Attempts'', ''99'')],
       init_body = Some (''{'' @ quote ''test'' @ '':'' @ quote ''data'' @ ''}'')\<rparr>]"
  by code_simp

text \<open>
  C4 as stated fails: \<^verbatim>\<open>maxAttempts\<close> is 5, the custom headers have the key
  \<^verbatim>\<open>Max-Attempts\<close>, and the request carries \<^verbatim>\<open>Done-Max-Attempts: 99\<close>.
\<close>

theorem max_attempts_overridden:
  "maxAttempts colliding_attempts = Some 5 \<and>
   headers colliding_attempts = Some [(''Max-Attempts'', ''99'')] \<and>
   snd (sendMessage (test_host response_sent) test_client ''webhook-url'' test_body
          (Some colliding_attempts)) =
     [\<lparr>url = ''https://api.example.com/v1/webhook-url'', init_method = Some ''POST'',
       init_headers =
         [(''Authorization'', ''Bearer test-token''),
          (''Content-Type'', ''application/json''),
          (''Done-Max-Attempts'', ''99'')],
       init_body = Some (''{'' @ quote ''test'' @ '':'' @ quote ''data'' @ ''}'')\<rparr>]"
  using colliding_attempts_request by (simp add: colliding_attempts_def no_options_def)

text \<open>The empty string is falsy: an empty \<^verbatim>\<open>failureCallback\<close> sets no header.\<close>

lemma empty_failureCallback_no_header:
  "snd (sendMessage (test_host response_sent) test_client ''webhook-url'' test_body
          (Some (no_options\<lparr>failureCallback := Some []\<rparr>))) =
     [\<lparr>url = ''https://api.example.com/v1/webhook-url'', init_method = Some ''POST'',
       init_headers =
         [(''Authorization'', ''Bearer test-token''),
          (''Content-Type'', ''application/json'')],
       init_body = Some (''{'' @ quote ''test'' @ '':'' @ quote ''data'' @ ''}'')\<rparr>]"
  by code_simp

text \<open>
  C4, amended.  For every request that a call of \<^verbatim>\<open>sendMessage\<close> issues, when the custom
  headers of the call have none of the keys \<^verbatim>\<open>Not-Before\<close>, \<^verbatim>\<open>Max-Attempts\<close>,
  \<^verbatim>\<open>Failure-Callback\<close>: a \<^verbatim>\<open>notBefore\<close> is a valid date and its \<^verbatim>\<open>toISOString()\<close> is
  the value of \<^verbatim>\<open>Done-Not-Before\<close>; a \<^verbatim>\<open>maxAttempts\<close> that is a positive integer (up
  to \<open>2^53 - 1\<close>) is, in decimal digits, the value of \<^verbatim>\<open>Done-Max-Attempts\<close>; a non-empty
  \<^verbatim>\<open>failureCallback\<close> is the value of \<^verbatim>\<open>Done-Failure-Callback\<close>, unchanged; and an
  option that is absent (or a \<^verbatim>\<open>failureCallback\<close> that is the empty string) leaves the
  request without the header of its name.
\<close>

theorem control_headers:
  assumes "req \<in> set (snd (sendMessage h c u body options))"
    and "''Not-Before'' \<notin> custom_keys options"
    and "''Max-Attempts'' \<notin> custom_keys options"
    and "''Failure-Callback'' \<notin> custom_keys options"
  shows "(\<forall>d. Option.bind options notBefore = Some d \<longrightarrow>
            (\<exists>s. toISOString d = Inr s \<and> map_of (init_headers req) ''Done-Not-Before'' = Some s)) \<and>
         (Option.bind options notBefore = None \<longrightarrow>
            map_of (init_headers req) ''Done-Not-Before'' = None) \<and>
         (\<forall>n. Option.bind options maxAttempts = Some n \<and> 0 < n \<and> n \<le> MAX_SAFE_INTEGER \<longrightarrow>
            (\<exists>s. map_of (init_headers req) ''Done-Max-Attempts'' = Some s \<and>
                 s = Number_toString n \<and> decimal_value s = nat n)) \<and>
         (Option.bind options maxAttempts = None \<longrightarrow>
            map_of (init_headers req) ''Done-Max-Attempts'' = None) \<and>
         (\<forall>s. Option.bind options failureCallback = Some s \<and> s \<noteq> [] \<longrightarrow>
            map_of (init_headers req) ''Done-Failure-Callback'' = Some s) \<and>
         (Option.bind options failureCallback = None \<or>
          Option.bind options failureCallback = Some [] \<longrightarrow>
            map_of (init_headers req) ''Done-Failure-Callback'' = None)"
proof -
  from sendMessage_issued[OF assms(1)] obtain hs where
    hs: "sendMessage_headers (config c) options = Inr hs" and req: "init_headers req = hs"
    by auto
  note nb = lookup_notBefore[OF hs assms(2)]
  note ma = lookup_maxAttempts[OF hs assms(3)]
  note fc = lookup_failureCallback[OF hs assms(4)]
  from headers_issued_valid[OF hs]
  have valid: "Option.bind options notBefore = Some d \<Longrightarrow> \<exists>s. toISOString d = Inr s" for d
    by (cases d) (auto simp: dates_valid_def)
  have "\<exists>s. toISOString d = Inr s \<and> map_of hs ''Done-Not-Before'' = Some s"
    if "Option.bind options notBefore = Some d" for d
    using valid[OF that] that by (auto simp: nb)
  moreover have "map_of hs ''Done-Not-Before'' = None" if "Option.bind options notBefore = None"
    using that by (simp add: nb)
  moreover have "\<exists>s. map_of hs ''Done-Max-Attempts'' = Some s \<and> s = Number_toString n \<and>
                      decimal_value s = nat n"
    if "Option.bind options maxAttempts = Some n \<and> 0 < n \<and> n \<le> MAX_SAFE_INTEGER" for n
    using that Number_toString_positive[of n] by (simp add: ma decimal_value_show_nat)
  moreover have "map_of hs ''Done-Max-Attempts'' = None" if "Option.bind options maxAttempts = None"
    using that by (simp add: ma)
  moreover have "map_of hs ''Done-Failure-Callback'' = Some s"
    if "Option.bind options failureCallback = Some s \<and> s \<noteq> []" for s
    using that by (simp add: fc)
  moreover have "map_of hs ''Done-Failure-Callback'' = None"
    if "Option.bind options failureCallback = None \<or> Option.bind options failureCallback = Some []"
    using that by (auto simp: fc)
  ultimately show ?thesis unfolding req by blast
qed

theorem control_headers_witness:
  "snd (sendMessage (test_host response_sent) test_client ''webhook-url'' test_body
          (Some all_options)) =
     [\<lparr>url = ''https://api.example.com/v1/webhook-url'', init_method = Some ''POST'',
       init_headers =
         [(''Authorization'', ''Bearer test-token''),
          (''Content-Type'', ''application/json''),
          (''Done-Not-Before'', ''2024-01-01T10:00:00.000Z''),
          (''Done-Max-Attempts'', ''5''),
          (''Done-Failure-Callback'', ''https://fail.example.com''),
          (''Done-Custom-Header'', ''custom-value'')],
       init_body = Some (''{'' @ quote ''test'' @ '':'' @ quote ''data'' @ ''}'')\<rparr>] \<and>
   custom_keys (Some all_options) = {''Custom-Header''} \<and>
   notBefore all_options = Some (TimeValue 1704103200000) \<and>
   toISOString (TimeValue 1704103200000) = Inr ''2024-01-01T10:00:00.000Z'' \<and>
   maxAttempts all_options = Some 5 \<and> Number_toString 5 = ''5'' \<and>
   failureCallback all_options = Some ''https://fail.example.com''"
proof -
  have k: "custom_keys (Some all_options) = {''Custom-Header''}"
    by (simp add: custom_keys_def all_options_def)
  have iso: "toISOString (TimeValue 1704103200000) = Inr ''2024-01-01T10:00:00.000Z''"
    by code_simp
  have num: "Number_toString 5 = ''5''" by code_simp
  from control_headers[of _ "test_host response_sent" test_client "''webhook-url''" test_body
      "Some all_options"]
  show ?thesis
    by (simp add: all_options_request k iso num) (simp add: all_options_def)
qed

section \<open>Failures (C6)\<close>

lemma read_field_error: "read_field v k = Inl e \<Longrightarrow> e = TypeError"
  by (cases v) simp_all

lemma read_field_object: "read_field (JObj ps) k = Inr (property ps k)"
  by (simp add: property_def)

lemma new_Date_error: "new_Date h v = Inl e \<Longrightarrow> e = TypeError"
  by (cases v) (simp_all split: option.splits)

lemma date_field_error: "date_field h v k = Inl e \<Longrightarrow> e = TypeError"
  unfolding date_field_def
  by (auto split: sum.splits dest: read_field_error new_Date_error)

lemma optional_date_error: "optional_date h v = Inl e \<Longrightarrow> e = TypeError"
  unfolding optional_date_def
  by (auto split: sum.splits if_splits dest: new_Date_error)

lemma optional_date_field_error: "optional_date_field h v k = Inl e \<Longrightarrow> e = TypeError"
  unfolding optional_date_field_def
  by (auto split: sum.splits dest: read_field_error optional_date_error)

lemma date_field_object: "date_field h (JObj ps) k = new_Date h (property ps k)"
  by (simp add: date_field_def property_def)

lemma optional_date_field_object:
  "optional_date_field h (JObj ps) k = optional_date h (property ps k)"
  by (simp add: optional_date_field_def property_def)

lemma status_info_error: "status_info h item = Inl e \<Longrightarrow> e = TypeError"
  unfolding status_info_def
  by (auto split: sum.splits dest: date_field_error optional_date_field_error)

lemma map_items_error: "map_items f xs = Inl e \<Longrightarrow> \<exists>x \<in> set xs. f x = Inl e"
  by (induction xs) (auto split: sum.splits)

lemma map_items_length: "map_items f xs = Inr ys \<Longrightarrow> length ys = length xs"
  by (induction xs arbitrary: ys) (auto split: sum.splits)

lemma map_items_nth:
  "map_items f xs = Inr ys \<Longrightarrow> i < length xs \<Longrightarrow> f (xs ! i) = Inr (ys ! i)"
proof (induction xs arbitrary: ys i)
  case Nil
  then show ?case by simp
next
  case (Cons x xs)
  then show ?case by (cases i) (auto split: sum.splits)
qed

lemma map_items_total:
  "(\<And>x. x \<in> set xs \<Longrightarrow> \<exists>y. f x = Inr y) \<Longrightarrow> \<exists>ys. map_items f xs = Inr ys"
proof (induction xs)
  case Nil
  then show ?case by simp
next
  case (Cons x xs)
  then obtain y ys where "f x = Inr y" "map_items f xs = Inr ys" by (meson list.set_intros)
  then show ?case by simp
qed

lemma sendMessage_result_ok: "ok r \<Longrightarrow> sendMessage_result h r \<noteq> Inl (Error m)"
  unfolding sendMessage_result_def
  by (auto split: option.splits sum.splits dest: read_field_error date_field_error)

lemma getMessage_result_ok: "ok r \<Longrightarrow> getMessage_result h r \<noteq> Inl (Error m)"
  unfolding getMessage_result_def
  by (auto split: option.splits sum.splits dest: date_field_error optional_date_field_error)

lemma getMessagesByStatus_result_ok: "ok r \<Longrightarrow> getMessagesByStatus_result h r \<noteq> Inl (Error m)"
  unfolding getMessagesByStatus_result_def
  by (auto split: option.splits jsvalue.splits dest!: map_items_error status_info_error)

text \<open>
  C6.  Let each of the three operations receive a response from \<^verbatim>\<open>fetch\<close>.  When the
  status of the response is outside 200 to 299 the operation fails with an \<^verbatim>\<open>Error\<close>
  whose message is the label of the operation, a colon and a space, the status in
  decimal, a space, and the status text; the message is made of these alone (the body
  of the response does not occur in it).  When the status is within 200 to 299 the
  operation does not fail with an \<^verbatim>\<open>Error\<close> made by the client.
\<close>

theorem protocol_failure:
  assumes "sendMessage_request h c u body options = Inr req" and "fetch h req = Inr r1"
    and "fetch h (getMessage_request c mid) = Inr r2"
    and "fetch h (getMessagesByStatus_request c st) = Inr r3"
  shows "(if ok r1 then \<forall>m. fst (sendMessage h c u body options) \<noteq> Inl (Error m)
          else fst (sendMessage h c u body options) =
                 Inl (Error (''Failed to send message: '' @ Number_toString (int (status r1)) @
                             '' '' @ statusText r1))) \<and>
         (if ok r2 then \<forall>m. fst (getMessage h c mid) \<noteq> Inl (Error m)
          else fst (getMessage h c mid) =
                 Inl (Error (''Failed to get message: '' @ Number_toString (int (status r2)) @
                             '' '' @ statusText r2))) \<and>
         (if ok r3 then \<forall>m. fst (getMessagesByStatus h c st) \<noteq> Inl (Error m)
          else fst (getMessagesByStatus h c st) =
                 Inl (Error (''Failed to get messages by status: '' @
                             Number_toString (int (status r3)) @ '' '' @ statusText r3)))"
proof -
  have s: "fst (sendMessage h c u body options) = sendMessage_result h r1"
    by (simp add: sendMessage_def assms(1,2))
  have g: "fst (getMessage h c mid) = getMessage_result h r2"
    by (simp add: getMessage_def assms(3))
  have l: "fst (getMessagesByStatus h c st) = getMessagesByStatus_result h r3"
    by (simp add: getMessagesByStatus_def assms(4))
  have "if ok r1 then \<forall>m. sendMessage_result h r1 \<noteq> Inl (Error m)
        else sendMessage_result h r1 =
               Inl (Error (''Failed to send message: '' @ Number_toString (int (status r1)) @
                           '' '' @ statusText r1))"
    by (simp add: sendMessage_result_ok) (simp add: sendMessage_result_def failure_message_def)
  moreover have "if ok r2 then \<forall>m. getMessage_result h r2 \<noteq> Inl (Error m)
        else getMessage_result h r2 =
               Inl (Error (''Failed to get message: '' @ Number_toString (int (status r2)) @
                           '' '' @ statusText r2))"
    by (simp add: getMessage_result_ok) (simp add: getMessage_result_def failure_message_def)
  moreover have "if ok r3 then \<forall>m. getMessagesByStatus_result h r3 \<noteq> Inl (Error m)
        else getMessagesByStatus_result h r3 =
               Inl (Error (''Failed to get messages by status: '' @
                           Number_toString (int (status r3)) @ '' '' @ statusText r3))"
    by (simp add: getMessagesByStatus_result_ok)
       (simp add: getMessagesByStatus_result_def failure_message_def)
  ultimately show ?thesis
    unfolding s g l by blast
qed

lemma bad_request_outcomes:
  "fst (sendMessage (test_host response_bad_request) test_client ''webhook-url'' test_body None) =
     Inl (Error ''Failed to send message: 400 Bad Request'')"
  "fst (getMessage (test_host response_bad_request) test_client ''msg-123'') =
     Inl (Error ''Failed to get message: 400 Bad Request'')"
  "fst (getMessagesByStatus (test_host response_bad_request) test_client QUEUED) =
     Inl (Error ''Failed to get messages by status: 400 Bad Request'')"
  by code_simp+

theorem protocol_failure_witness:
  "\<not> ok response_bad_request \<and>
   fst (sendMessage (test_host response_bad_request) test_client ''webhook-url'' test_body None) =
     Inl (Error ''Failed to send message: 400 Bad Request'') \<and>
   fst (getMessage (test_host response_bad_request) test_client ''msg-123'') =
     Inl (Error ''Failed to get message: 400 Bad Request'') \<and>
   fst (getMessagesByStatus (test_host response_bad_request) test_client QUEUED) =
     Inl (Error ''Failed to get messages by status: 400 Bad Request'')"
proof -
  have r: "sendMessage_request (test_host response_bad_request) test_client ''webhook-url''
             test_body None =
           Inr \<lparr>url = ''https://api.example.com/v1/webhook-url'', init_method = Some ''POST'',
                init_headers = [(''Authorization'', ''Bearer test-token''),
                                (''Content-Type'', ''application/json'')],
                init_body = Some (''{'' @ quote ''test'' @ '':'' @ quote ''data'' @ ''}'')\<rparr>"
    by code_simp
  have f: "fetch (test_host response_bad_request) x = Inr response_bad_request" for x
    by (simp add: test_host_def)
  have n: "\<not> ok response_bad_request"
    by (simp add: ok_def response_bad_request_def)
  from protocol_failure[OF r f f f, of "''msg-123''" QUEUED] n
  show ?thesis
    by (simp add: bad_request_outcomes)
qed

section \<open>Results of the read operations (C7, C8)\<close>

lemma object_spread_lookup:
  assumes "distinct (map fst ps)"
  shows "map_of (object_spread (JObj ps) []) k = map_of ps k"
proof (cases "map_of ps k")
  case None
  then have "k \<notin> (\<lambda>k. k) ` fst ` set ps" by (simp add: map_of_eq_None_iff)
  from fold_update_other[OF this, of "[]"] None show ?thesis
    by (simp add: object_spread_def)
next
  case (Some v)
  then have "(k, v) \<in> set ps" by (rule map_of_SomeD)
  from fold_update_member[of "\<lambda>k. k", OF _ assms this, of "[]"] Some show ?thesis
    by (simp add: object_spread_def)
qed

lemma new_Date_string: "new_Date h (JStr s) = Inr d \<longleftrightarrow> d = Date_parse h s"
  by auto

lemma optional_date_string:
  "s \<noteq> [] \<Longrightarrow> optional_date h (JStr s) = Inr la \<longleftrightarrow> la = JDate (Date_parse h s)"
  by (auto simp: optional_date_def)


lemma getMessage_result_object:
  assumes "ok r" and "json r = Some (JObj ps)"
    and "new_Date h (property ps ''createdAt'') = Inr ca"
    and "new_Date h (property ps ''updatedAt'') = Inr ua"
    and "new_Date h (property ps ''scheduledAt'') = Inr sa"
    and "optional_date h (property ps ''lastAttemptAt'') = Inr la"
  shows "getMessage_result h r =
     Inr (AList.update ''lastAttemptAt'' la
         (AList.update ''scheduledAt'' (JDate sa)
         (AList.update ''updatedAt'' (JDate ua)
         (AList.update ''createdAt'' (JDate ca)
         (object_spread (JObj ps) [])))))"
  using assms(1,2)
  by (simp add: getMessage_result_def date_field_object optional_date_field_object assms(3-6)
      del: new_Date.simps)

lemma status_info_object:
  assumes "new_Date h (property ps ''scheduledAt'') = Inr sa"
    and "optional_date h (property ps ''lastAttemptAt'') = Inr la"
  shows "status_info h (JObj ps) =
     Inr (AList.update ''lastAttemptAt'' la
         (AList.update ''scheduledAt'' (JDate sa)
         (object_spread (JObj ps) [])))"
  by (simp add: status_info_def date_field_object optional_date_field_object assms
      del: new_Date.simps)

lemma message_lookup:
  assumes "ok r" and "json r = Some (JObj ps)" and "distinct (map fst ps)"
    and "new_Date h (property ps ''createdAt'') = Inr ca"
    and "new_Date h (property ps ''updatedAt'') = Inr ua"
    and "new_Date h (property ps ''scheduledAt'') = Inr sa"
    and "optional_date h (property ps ''lastAttemptAt'') = Inr la"
  shows "\<exists>msg. getMessage_result h r = Inr msg \<and>
     map_of msg =
       (map_of ps)(''createdAt'' \<mapsto> JDate ca, ''updatedAt'' \<mapsto> JDate ua,
                   ''scheduledAt'' \<mapsto> JDate sa, ''lastAttemptAt'' \<mapsto> la)"
  by (simp add: getMessage_result_object[OF assms(1,2,4,5,6,7)] update_conv' fun_eq_iff
      object_spread_lookup[OF assms(3)])

lemma status_info_lookup:
  assumes "distinct (map fst ps)"
    and "new_Date h (property ps ''scheduledAt'') = Inr sa"
    and "optional_date h (property ps ''lastAttemptAt'') = Inr la"
  shows "\<exists>e. status_info h (JObj ps) = Inr e \<and>
     map_of e = (map_of ps)(''scheduledAt'' \<mapsto> JDate sa, ''lastAttemptAt'' \<mapsto> la)"
  by (simp add: status_info_object[OF assms(2,3)] update_conv' fun_eq_iff
      object_spread_lookup[OF assms(1)])

text \<open>
  A timestamp that \<^verbatim>\<open>new Date\<close> cannot convert: the operation throws the TypeError and
  returns no message.
\<close>

lemma getMessage_result_throws:
  assumes "ok r" and "json r = Some (JObj ps)"
    and "new_Date h (property ps ''createdAt'') = Inl e \<or>
         new_Date h (property ps ''updatedAt'') = Inl e \<or>
         new_Date h (property ps ''scheduledAt'') = Inl e \<or>
         optional_date h (property ps ''lastAttemptAt'') = Inl e"
  shows "getMessage_result h r = Inl TypeError"
proof -
  have "\<exists>e'. getMessage_result h r = Inl e'"
    using assms
    by (auto simp: getMessage_result_def date_field_object optional_date_field_object
        simp del: new_Date.simps split: sum.splits)
  then obtain e' where e': "getMessage_result h r = Inl e'" by blast
  then have "e' = TypeError"
    using assms(1,2)
    by (auto simp: getMessage_result_def split: sum.splits
        dest: date_field_error optional_date_field_error)
  with e' show ?thesis by simp
qed

lemma no_primitive_message:
  "getMessage (test_host response_no_primitive) test_client ''msg-123'' =
     (Inl TypeError,
      [\<lparr>url = ''https://api.example.com/v1/msg-123'', init_method = None,
        init_headers = [(''Authorization'', ''Bearer test-token'')], init_body = None\<rparr>])"
  by code_simp

lemma test_message_result:
  "fst (getMessage (test_host response_message) test_client ''msg-123'') =
     Inr [(''id'', JStr ''msg-123''),
          (''callbackUrl'', JStr ''https://example.com/webhook''),
          (''body'', JObj [(''test'', JStr ''data'')]),
          (''status'', JStr ''QUEUED''), (''attempts'', JNum 0),
          (''maxAttempts'', JNum 3),
          (''createdAt'', JDate (TimeValue 1704110400000)),
          (''updatedAt'', JDate (TimeValue 1704110400000)),
          (''scheduledAt'', JDate (TimeValue 1704110700000)),
          (''lastAttemptAt'', JUndefined)]"
  by code_simp

text \<open>
  C7 as stated fails in its last part, on the response of the test suite: the JSON has
  no \<^verbatim>\<open>lastAttemptAt\<close>, and the message that \<^verbatim>\<open>getMessage\<close> returns has it, as its last
  own property, with the value \<^verbatim>\<open>undefined\<close>.  The property is not absent:
  \<^verbatim>\<open>Object.keys\<close> lists it and \<^verbatim>\<open>"lastAttemptAt" in message\<close> is true.
\<close>

theorem message_lastAttemptAt_defined:
  "json response_message =
     Some (JObj [(''id'', JStr ''msg-123''),
                 (''callbackUrl'', JStr ''https://example.com/webhook''),
                 (''body'', JObj [(''test'', JStr ''data'')]),
                 (''status'', JStr ''QUEUED''),
                 (''attempts'', JNum 0),
                 (''maxAttempts'', JNum 3),
                 (''createdAt'', JStr ''2024-01-01T12:00:00Z''),
                 (''updatedAt'', JStr ''2024-01-01T12:00:00Z''),
                 (''scheduledAt'', JStr ''2024-01-01T12:05:00Z'')]) \<and>
   fst (getMessage (test_host response_message) test_client ''msg-123'') =
     Inr [(''id'', JStr ''msg-123''),
          (''callbackUrl'', JStr ''https://example.com/webhook''),
          (''body'', JObj [(''test'', JStr ''data'')]),
          (''status'', JStr ''QUEUED''), (''attempts'', JNum 0),
          (''maxAttempts'', JNum 3),
          (''createdAt'', JDate (TimeValue 1704110400000)),
          (''updatedAt'', JDate (TimeValue 1704110400000)),
          (''scheduledAt'', JDate (TimeValue 1704110700000)),
          (''lastAttemptAt'', JUndefined)]"
  using test_message_result by (simp add: response_message_def)

text \<open>
  C7, amended.  Let \<^verbatim>\<open>getMessage\<close> receive a response with a success status whose JSON is
  an object (each property name once), and let \<^verbatim>\<open>new Date\<close> not throw on its
  \<^verbatim>\<open>createdAt\<close>, \<^verbatim>\<open>updatedAt\<close> and \<^verbatim>\<open>scheduledAt\<close>, nor on its \<^verbatim>\<open>lastAttemptAt\<close> when that
  is truthy (it throws on no string).  Then it returns a message, in which: every
  property other than these four is there exactly when it is in the JSON, with the
  same value; \<^verbatim>\<open>createdAt\<close>, \<^verbatim>\<open>updatedAt\<close> and \<^verbatim>\<open>scheduledAt\<close> are the \<^verbatim>\<open>Date\<close> objects that
  \<^verbatim>\<open>new Date\<close> makes of the JSON's values, for a string the date parsed from it;
  \<^verbatim>\<open>lastAttemptAt\<close> is the \<^verbatim>\<open>Date\<close> parsed from a non-empty string; and when the JSON has
  no \<^verbatim>\<open>lastAttemptAt\<close>, the message has the property \<^verbatim>\<open>lastAttemptAt\<close> with the value
  \<^verbatim>\<open>undefined\<close>: no date stands in for it, and the property is not absent either.
\<close>

theorem fetch_by_id_result:
  assumes "fetch h (getMessage_request c mid) = Inr r"
    and "ok r"
    and "json r = Some (JObj ps)"
    and "distinct (map fst ps)"
    and "new_Date h (property ps ''createdAt'') = Inr ca"
    and "new_Date h (property ps ''updatedAt'') = Inr ua"
    and "new_Date h (property ps ''scheduledAt'') = Inr sa"
    and "optional_date h (property ps ''lastAttemptAt'') = Inr la"
  shows "\<exists>msg. fst (getMessage h c mid) = Inr msg \<and>
           (\<forall>k. k \<notin> {''createdAt'', ''updatedAt'', ''scheduledAt'', ''lastAttemptAt''} \<longrightarrow>
                map_of msg k = map_of ps k) \<and>
           map_of msg ''createdAt'' = Some (JDate ca) \<and>
           map_of msg ''updatedAt'' = Some (JDate ua) \<and>
           map_of msg ''scheduledAt'' = Some (JDate sa) \<and>
           map_of msg ''lastAttemptAt'' = Some la \<and>
           (\<forall>s. map_of ps ''createdAt'' = Some (JStr s) \<longrightarrow>
                map_of msg ''createdAt'' = Some (JDate (Date_parse h s))) \<and>
           (\<forall>s. map_of ps ''updatedAt'' = Some (JStr s) \<longrightarrow>
                map_of msg ''updatedAt'' = Some (JDate (Date_parse h s))) \<and>
           (\<forall>s. map_of ps ''scheduledAt'' = Some (JStr s) \<longrightarrow>
                map_of msg ''scheduledAt'' = Some (JDate (Date_parse h s))) \<and>
           (\<forall>s. map_of ps ''lastAttemptAt'' = Some (JStr s) \<and> s \<noteq> [] \<longrightarrow>
                map_of msg ''lastAttemptAt'' = Some (JDate (Date_parse h s))) \<and>
           (map_of ps ''lastAttemptAt'' = None \<longrightarrow>
                map_of msg ''lastAttemptAt'' = Some JUndefined)"
proof -
  from message_lookup[OF assms(2-8)] obtain msg where
    res: "getMessage_result h r = Inr msg" and
    look: "map_of msg =
       (map_of ps)(''createdAt'' \<mapsto> JDate ca, ''updatedAt'' \<mapsto> JDate ua,
                   ''scheduledAt'' \<mapsto> JDate sa, ''lastAttemptAt'' \<mapsto> la)"
    by blast
  have m: "fst (getMessage h c mid) = Inr msg"
    by (simp add: getMessage_def assms(1) res)
  have 1: "\<forall>k. k \<notin> {''createdAt'', ''updatedAt'', ''scheduledAt'', ''lastAttemptAt''} \<longrightarrow>
            map_of msg k = map_of ps k"
    unfolding look by simp
  have c: "map_of msg ''createdAt'' = Some (JDate ca)" unfolding look by simp
  have u: "map_of msg ''updatedAt'' = Some (JDate ua)" unfolding look by simp
  have s: "map_of msg ''scheduledAt'' = Some (JDate sa)" unfolding look by simp
  have l: "map_of msg ''lastAttemptAt'' = Some la" unfolding look by simp
  have 2: "\<forall>s. map_of ps ''createdAt'' = Some (JStr s) \<longrightarrow>
            map_of msg ''createdAt'' = Some (JDate (Date_parse h s))"
    using assms(5) unfolding c by (auto simp: property_def)
  have 3: "\<forall>s. map_of ps ''updatedAt'' = Some (JStr s) \<longrightarrow>
            map_of msg ''updatedAt'' = Some (JDate (Date_parse h s))"
    using assms(6) unfolding u by (auto simp: property_def)
  have 4: "\<forall>s. map_of ps ''scheduledAt'' = Some (JStr s) \<longrightarrow>
            map_of msg ''scheduledAt'' = Some (JDate (Date_parse h s))"
    using assms(7) unfolding s by (auto simp: property_def)
  have 5: "\<forall>s. map_of ps ''lastAttemptAt'' = Some (JStr s) \<and> s \<noteq> [] \<longrightarrow>
            map_of msg ''lastAttemptAt'' = Some (JDate (Date_parse h s))"
    using assms(8) unfolding l by (auto simp: property_def optional_date_def)
  have 6: "map_of ps ''lastAttemptAt'' = None \<longrightarrow> map_of msg ''lastAttemptAt'' = Some JUndefined"
    using assms(8) unfolding l by (auto simp: property_def optional_date_def)
  show ?thesis
    by (rule exI[of _ msg]) (intro conjI m 1 c u s l 2 3 4 5 6)
qed

theorem fetch_by_id_result_witness:
  "ok response_message \<and>
   (\<exists>ps. json response_message = Some (JObj ps) \<and> distinct (map fst ps) \<and>
         map_of ps ''lastAttemptAt'' = None \<and>
         new_Date (test_host response_message) (property ps ''createdAt'') =
           Inr (TimeValue 1704110400000) \<and>
         new_Date (test_host response_message) (property ps ''updatedAt'') =
           Inr (TimeValue 1704110400000) \<and>
         new_Date (test_host response_message) (property ps ''scheduledAt'') =
           Inr (TimeValue 1704110700000) \<and>
         optional_date (test_host response_message) (property ps ''lastAttemptAt'') =
           Inr JUndefined) \<and>
   (\<exists>msg. fst (getMessage (test_host response_message) test_client ''msg-123'') = Inr msg \<and>
          map_of msg ''id'' = Some (JStr ''msg-123'') \<and>
          map_of msg ''createdAt'' = Some (JDate (TimeValue 1704110400000)) \<and>
          map_of msg ''lastAttemptAt'' = Some JUndefined)"
proof -
  define ps where "ps =
     [(''id'', JStr ''msg-123''),
      (''callbackUrl'', JStr ''https://example.com/webhook''),
      (''body'', JObj [(''test'', JStr ''data'')]),
      (''status'', JStr ''QUEUED''),
      (''attempts'', JNum 0),
      (''maxAttempts'', JNum 3),
      (''createdAt'', JStr ''2024-01-01T12:00:00Z''),
      (''updatedAt'', JStr ''2024-01-01T12:00:00Z''),
      (''scheduledAt'', JStr ''2024-01-01T12:05:00Z'')]"
  have f: "fetch (test_host response_message) x = Inr response_message" for x
    by (simp add: test_host_def)
  have o: "ok response_message" by (simp add: ok_def response_message_def)
  have j: "json response_message = Some (JObj ps)"
    by (simp add: response_message_def ps_def)
  have d: "distinct (map fst ps)" by (simp add: ps_def)
  have p: "property ps ''createdAt'' = JStr ''2024-01-01T12:00:00Z''"
    "property ps ''updatedAt'' = JStr ''2024-01-01T12:00:00Z''"
    "property ps ''scheduledAt'' = JStr ''2024-01-01T12:05:00Z''"
    "property ps ''lastAttemptAt'' = JUndefined"
    "map_of ps ''lastAttemptAt'' = None"
    by (simp_all add: property_def ps_def)
  have n: "new_Date (test_host response_message) (property ps ''createdAt'') =
             Inr (TimeValue 1704110400000)"
    "new_Date (test_host response_message) (property ps ''updatedAt'') =
             Inr (TimeValue 1704110400000)"
    "new_Date (test_host response_message) (property ps ''scheduledAt'') =
             Inr (TimeValue 1704110700000)"
    "optional_date (test_host response_message) (property ps ''lastAttemptAt'') = Inr JUndefined"
    unfolding p by code_simp+
  from fetch_by_id_result[where c = test_client and mid = "''msg-123''", OF f o j d n]
  have a: "\<exists>msg. fst (getMessage (test_host response_message) test_client ''msg-123'') = Inr msg \<and>
          map_of msg ''id'' = Some (JStr ''msg-123'') \<and>
          map_of msg ''createdAt'' = Some (JDate (TimeValue 1704110400000)) \<and>
          map_of msg ''lastAttemptAt'' = Some JUndefined"
    by (simp add: test_message_result)
  have b: "\<exists>qs. json response_message = Some (JObj qs) \<and> distinct (map fst qs) \<and>
         map_of qs ''lastAttemptAt'' = None \<and>
         new_Date (test_host response_message) (property qs ''createdAt'') =
           Inr (TimeValue 1704110400000) \<and>
         new_Date (test_host response_message) (property qs ''updatedAt'') =
           Inr (TimeValue 1704110400000) \<and>
         new_Date (test_host response_message) (property qs ''scheduledAt'') =
           Inr (TimeValue 1704110700000) \<and>
         optional_date (test_host response_message) (property qs ''lastAttemptAt'') =
           Inr JUndefined"
    using j d p n by (intro exI[of _ ps]) simp
  from o b a show ?thesis by blast
qed

lemma map_items_throws:
  "x \<in> set xs \<Longrightarrow> f x = Inl e \<Longrightarrow> \<exists>e'. map_items f xs = Inl e'"
  by (induction xs) (auto split: sum.splits)

text \<open>
  An element that \<^verbatim>\<open>new Date\<close> cannot convert: the callback throws, and with it the
  whole operation; no list is returned, not even of the elements before it.
\<close>

lemma getMessagesByStatus_result_throws:
  assumes "ok r" and "json r = Some (JArr items)"
    and "item \<in> set items" and "status_info h item = Inl e"
  shows "getMessagesByStatus_result h r = Inl TypeError"
proof -
  from map_items_throws[of item items "status_info h" e, OF assms(3,4)] obtain e' where
    e': "map_items (status_info h) items = Inl e'" by blast
  from map_items_error[OF e'] have "e' = TypeError"
    by (auto dest: status_info_error)
  with e' show ?thesis
    by (simp add: getMessagesByStatus_result_def assms(1,2))
qed

lemma no_primitive_list:
  "getMessagesByStatus (test_host response_list_no_primitive) test_client QUEUED =
     (Inl TypeError,
      [\<lparr>url = ''https://api.example.com/v1/by-status/QUEUED'', init_method = None,
        init_headers = [(''Authorization'', ''Bearer test-token'')], init_body = None\<rparr>])"
  by code_simp

lemma status_info_entry:
  assumes "distinct (map fst ps)"
    and "new_Date h (property ps ''scheduledAt'') = Inr sa"
    and "optional_date h (property ps ''lastAttemptAt'') = Inr la"
    and "status_info h (JObj ps) = Inr e"
  shows "\<forall>k. k \<notin> {''scheduledAt'', ''lastAttemptAt''} \<longrightarrow> map_of e k = map_of ps k"
    and "map_of e ''scheduledAt'' = Some (JDate sa)"
    and "map_of e ''lastAttemptAt'' = Some la"
    and "\<forall>s. map_of ps ''scheduledAt'' = Some (JStr s) \<longrightarrow>
           map_of e ''scheduledAt'' = Some (JDate (Date_parse h s))"
    and "\<forall>s. map_of ps ''lastAttemptAt'' = Some (JStr s) \<and> s \<noteq> [] \<longrightarrow>
           map_of e ''lastAttemptAt'' = Some (JDate (Date_parse h s))"
    and "map_of ps ''lastAttemptAt'' = None \<longrightarrow> map_of e ''lastAttemptAt'' = Some JUndefined"
proof -
  from status_info_lookup[OF assms(1,2,3)] assms(4)
  have look: "map_of e = (map_of ps)(''scheduledAt'' \<mapsto> JDate sa, ''lastAttemptAt'' \<mapsto> la)"
    by simp
  show "\<forall>k. k \<notin> {''scheduledAt'', ''lastAttemptAt''} \<longrightarrow> map_of e k = map_of ps k"
    unfolding look by simp
  show s: "map_of e ''scheduledAt'' = Some (JDate sa)" unfolding look by simp
  show l: "map_of e ''lastAttemptAt'' = Some la" unfolding look by simp
  show "\<forall>s. map_of ps ''scheduledAt'' = Some (JStr s) \<longrightarrow>
           map_of e ''scheduledAt'' = Some (JDate (Date_parse h s))"
    using assms(2) unfolding s by (auto simp: property_def)
  show "\<forall>s. map_of ps ''lastAttemptAt'' = Some (JStr s) \<and> s \<noteq> [] \<longrightarrow>
           map_of e ''lastAttemptAt'' = Some (JDate (Date_parse h s))"
    using assms(3) unfolding l by (auto simp: property_def optional_date_def)
  show "map_of ps ''lastAttemptAt'' = None \<longrightarrow> map_of e ''lastAttemptAt'' = Some JUndefined"
    using assms(3) unfolding l by (auto simp: property_def optional_date_def)
qed

lemma test_list_result:
  "fst (getMessagesByStatus (test_host response_list) test_client QUEUED) =
     Inr [[(''id'', JStr ''msg-1''), (''status'', JStr ''QUEUED''),
           (''attempts'', JNum 0),
           (''scheduledAt'', JDate (TimeValue 1704110400000)),
           (''lastAttemptAt'', JUndefined)],
          [(''id'', JStr ''msg-2''), (''status'', JStr ''QUEUED''),
           (''attempts'', JNum 1),
           (''scheduledAt'', JDate (TimeValue 1704110400000)),
           (''lastAttemptAt'', JDate (TimeValue 1704106800000))]]"
  by code_simp

text \<open>
  C8 as stated fails in one part, on the response of the test suite: the first element
  of the array has no \<^verbatim>\<open>lastAttemptAt\<close>, and the first entry of the list that
  \<^verbatim>\<open>getMessagesByStatus\<close> returns has it, as its last own property, with the value
  \<^verbatim>\<open>undefined\<close>.  The entry does not omit the property.
\<close>

theorem entry_lastAttemptAt_defined:
  "json response_list =
     Some (JArr [JObj [(''id'', JStr ''msg-1''),
                       (''status'', JStr ''QUEUED''),
                       (''attempts'', JNum 0),
                       (''scheduledAt'', JStr ''2024-01-01T12:00:00Z'')],
                 JObj [(''id'', JStr ''msg-2''),
                       (''status'', JStr ''QUEUED''),
                       (''attempts'', JNum 1),
                       (''scheduledAt'', JStr ''2024-01-01T12:00:00Z''),
                       (''lastAttemptAt'', JStr ''2024-01-01T11:00:00Z'')]]) \<and>
   fst (getMessagesByStatus (test_host response_list) test_client QUEUED) =
     Inr [[(''id'', JStr ''msg-1''), (''status'', JStr ''QUEUED''),
           (''attempts'', JNum 0),
           (''scheduledAt'', JDate (TimeValue 1704110400000)),
           (''lastAttemptAt'', JUndefined)],
          [(''id'', JStr ''msg-2''), (''status'', JStr ''QUEUED''),
           (''attempts'', JNum 1),
           (''scheduledAt'', JDate (TimeValue 1704110400000)),
           (''lastAttemptAt'', JDate (TimeValue 1704106800000))]]"
  using test_list_result by (simp add: response_list_def)

text \<open>
  C8, amended.  Let \<^verbatim>\<open>getMessagesByStatus\<close> receive a response with a success status
  whose JSON is an array of objects, and let \<^verbatim>\<open>new Date\<close> throw on no element's
  \<^verbatim>\<open>scheduledAt\<close> and on no element's truthy \<^verbatim>\<open>lastAttemptAt\<close> (it throws on no string).
  Then it returns a list that is as long as the array, and whose entry at each index
  is made from the array's element at that index: every property other than
  \<^verbatim>\<open>scheduledAt\<close> and \<^verbatim>\<open>lastAttemptAt\<close> as in the element; \<^verbatim>\<open>scheduledAt\<close> the \<^verbatim>\<open>Date\<close> that
  \<^verbatim>\<open>new Date\<close> makes of the element's, for a string the date parsed from it;
  \<^verbatim>\<open>lastAttemptAt\<close> the \<^verbatim>\<open>Date\<close> parsed from a non-empty string; and, when the element
  has no \<^verbatim>\<open>lastAttemptAt\<close>, the property \<^verbatim>\<open>lastAttemptAt\<close> with the value \<^verbatim>\<open>undefined\<close>: no
  date stands in for it, and the property is not absent either.  For the empty array
  it returns the empty list.
\<close>

theorem list_by_status_result:
  assumes "fetch h (getMessagesByStatus_request c st) = Inr r"
    and "ok r"
    and "json r = Some (JArr items)"
    and "\<forall>item \<in> set items. \<exists>ps. item = JObj ps \<and> distinct (map fst ps) \<and>
           (\<exists>sa. new_Date h (property ps ''scheduledAt'') = Inr sa) \<and>
           (\<exists>la. optional_date h (property ps ''lastAttemptAt'') = Inr la)"
  shows "\<exists>out. fst (getMessagesByStatus h c st) = Inr out \<and>
           length out = length items \<and>
           (items = [] \<longrightarrow> out = []) \<and>
           (\<forall>i ps. i < length items \<and> items ! i = JObj ps \<longrightarrow>
              (\<forall>k. k \<notin> {''scheduledAt'', ''lastAttemptAt''} \<longrightarrow>
                   map_of (out ! i) k = map_of ps k) \<and>
              (\<forall>sa. new_Date h (property ps ''scheduledAt'') = Inr sa \<longrightarrow>
                   map_of (out ! i) ''scheduledAt'' = Some (JDate sa)) \<and>
              (\<forall>la. optional_date h (property ps ''lastAttemptAt'') = Inr la \<longrightarrow>
                   map_of (out ! i) ''lastAttemptAt'' = Some la) \<and>
              (\<forall>s. map_of ps ''scheduledAt'' = Some (JStr s) \<longrightarrow>
                   map_of (out ! i) ''scheduledAt'' = Some (JDate (Date_parse h s))) \<and>
              (\<forall>s. map_of ps ''lastAttemptAt'' = Some (JStr s) \<and> s \<noteq> [] \<longrightarrow>
                   map_of (out ! i) ''lastAttemptAt'' = Some (JDate (Date_parse h s))) \<and>
              (map_of ps ''lastAttemptAt'' = None \<longrightarrow>
                   map_of (out ! i) ''lastAttemptAt'' = Some JUndefined))"
proof -
  have res: "fst (getMessagesByStatus h c st) = map_items (status_info h) items"
    by (simp add: getMessagesByStatus_def assms(1) getMessagesByStatus_result_def assms(2,3))
  have "\<exists>y. status_info h x = Inr y" if "x \<in> set items" for x
  proof -
    from assms(4) that obtain ps sa la where "x = JObj ps"
      "new_Date h (property ps ''scheduledAt'') = Inr sa"
      "optional_date h (property ps ''lastAttemptAt'') = Inr la" by blast
    then show ?thesis by (simp add: status_info_object)
  qed
  from map_items_total[of items "status_info h", OF this]
  obtain out where out: "map_items (status_info h) items = Inr out" by blast
  have len: "length out = length items" by (rule map_items_length[OF out])
  have every: "\<forall>i ps. i < length items \<and> items ! i = JObj ps \<longrightarrow>
              (\<forall>k. k \<notin> {''scheduledAt'', ''lastAttemptAt''} \<longrightarrow>
                   map_of (out ! i) k = map_of ps k) \<and>
              (\<forall>sa. new_Date h (property ps ''scheduledAt'') = Inr sa \<longrightarrow>
                   map_of (out ! i) ''scheduledAt'' = Some (JDate sa)) \<and>
              (\<forall>la. optional_date h (property ps ''lastAttemptAt'') = Inr la \<longrightarrow>
                   map_of (out ! i) ''lastAttemptAt'' = Some la) \<and>
              (\<forall>s. map_of ps ''scheduledAt'' = Some (JStr s) \<longrightarrow>
                   map_of (out ! i) ''scheduledAt'' = Some (JDate (Date_parse h s))) \<and>
              (\<forall>s. map_of ps ''lastAttemptAt'' = Some (JStr s) \<and> s \<noteq> [] \<longrightarrow>
                   map_of (out ! i) ''lastAttemptAt'' = Some (JDate (Date_parse h s))) \<and>
              (map_of ps ''lastAttemptAt'' = None \<longrightarrow>
                   map_of (out ! i) ''lastAttemptAt'' = Some JUndefined)"
  proof (intro allI impI)
    fix i ps
    assume i: "i < length items \<and> items ! i = JObj ps"
    then have "JObj ps \<in> set items" by (metis nth_mem)
    with assms(4) obtain sa la where d: "distinct (map fst ps)"
      and sa: "new_Date h (property ps ''scheduledAt'') = Inr sa"
      and la: "optional_date h (property ps ''lastAttemptAt'') = Inr la" by auto
    from map_items_nth[OF out, of i] i
    have e: "status_info h (JObj ps) = Inr (out ! i)" by simp
    note en = status_info_entry[OF d sa la e]
    have 2: "\<forall>x. new_Date h (property ps ''scheduledAt'') = Inr x \<longrightarrow>
                   map_of (out ! i) ''scheduledAt'' = Some (JDate x)"
      using en(2) sa by simp
    have 3: "\<forall>x. optional_date h (property ps ''lastAttemptAt'') = Inr x \<longrightarrow>
                   map_of (out ! i) ''lastAttemptAt'' = Some x"
      using en(3) la by simp
    show "(\<forall>k. k \<notin> {''scheduledAt'', ''lastAttemptAt''} \<longrightarrow>
                   map_of (out ! i) k = map_of ps k) \<and>
              (\<forall>sa. new_Date h (property ps ''scheduledAt'') = Inr sa \<longrightarrow>
                   map_of (out ! i) ''scheduledAt'' = Some (JDate sa)) \<and>
              (\<forall>la. optional_date h (property ps ''lastAttemptAt'') = Inr la \<longrightarrow>
                   map_of (out ! i) ''lastAttemptAt'' = Some la) \<and>
              (\<forall>s. map_of ps ''scheduledAt'' = Some (JStr s) \<longrightarrow>
                   map_of (out ! i) ''scheduledAt'' = Some (JDate (Date_parse h s))) \<and>
              (\<forall>s. map_of ps ''lastAttemptAt'' = Some (JStr s) \<and> s \<noteq> [] \<longrightarrow>
                   map_of (out ! i) ''lastAttemptAt'' = Some (JDate (Date_parse h s))) \<and>
              (map_of ps ''lastAttemptAt'' = None \<longrightarrow>
                   map_of (out ! i) ''lastAttemptAt'' = Some JUndefined)"
      by (intro conjI en(1) 2 3 en(4) en(5) en(6))
  qed
  have empty: "items = [] \<longrightarrow> out = []" using len by auto
  have r: "fst (getMessagesByStatus h c st) = Inr out" by (simp add: res out)
  show ?thesis
    by (rule exI[of _ out]) (intro conjI r len empty every)
qed

theorem list_by_status_result_witness:
  "ok response_list \<and>
   (\<exists>items. json response_list = Some (JArr items) \<and> length items = 2 \<and>
            list_all (\<lambda>item. \<exists>ps. item = JObj ps \<and> distinct (map fst ps) \<and>
               (\<exists>sa. new_Date (test_host response_list) (property ps ''scheduledAt'') = Inr sa) \<and>
               (\<exists>la. optional_date (test_host response_list) (property ps ''lastAttemptAt'') =
                        Inr la)) items) \<and>
   (\<exists>out. fst (getMessagesByStatus (test_host response_list) test_client QUEUED) = Inr out \<and>
          length out = 2 \<and>
          map (\<lambda>e. map_of e ''id'') out = [Some (JStr ''msg-1''), Some (JStr ''msg-2'')] \<and>
          map (\<lambda>e. map_of e ''lastAttemptAt'') out =
            [Some JUndefined, Some (JDate (TimeValue 1704106800000))])"
proof -
  define items where "items =
     [JObj [(''id'', JStr ''msg-1''),
            (''status'', JStr ''QUEUED''),
            (''attempts'', JNum 0),
            (''scheduledAt'', JStr ''2024-01-01T12:00:00Z'')],
      JObj [(''id'', JStr ''msg-2''),
            (''status'', JStr ''QUEUED''),
            (''attempts'', JNum 1),
            (''scheduledAt'', JStr ''2024-01-01T12:00:00Z''),
            (''lastAttemptAt'', JStr ''2024-01-01T11:00:00Z'')]]"
  have f: "fetch (test_host response_list) x = Inr response_list" for x
    by (simp add: test_host_def)
  have o: "ok response_list" by (simp add: ok_def response_list_def)
  have j: "json response_list = Some (JArr items)"
    by (simp add: response_list_def items_def)
  have p: "\<forall>item \<in> set items. \<exists>ps. item = JObj ps \<and> distinct (map fst ps) \<and>
           (\<exists>sa. new_Date (test_host response_list) (property ps ''scheduledAt'') = Inr sa) \<and>
           (\<exists>la. optional_date (test_host response_list) (property ps ''lastAttemptAt'') = Inr la)"
    by (simp add: items_def property_def optional_date_def)
  from list_by_status_result[where c = test_client and st = QUEUED, OF f o j p]
  have a: "\<exists>out. fst (getMessagesByStatus (test_host response_list) test_client QUEUED) = Inr out \<and>
          length out = 2 \<and>
          map (\<lambda>e. map_of e ''id'') out = [Some (JStr ''msg-1''), Some (JStr ''msg-2'')] \<and>
          map (\<lambda>e. map_of e ''lastAttemptAt'') out =
            [Some JUndefined, Some (JDate (TimeValue 1704106800000))]"
    by (simp add: test_list_result)
  have b: "\<exists>xs. json response_list = Some (JArr xs) \<and> length xs = 2 \<and>
            list_all (\<lambda>item. \<exists>ps. item = JObj ps \<and> distinct (map fst ps) \<and>
               (\<exists>sa. new_Date (test_host response_list) (property ps ''scheduledAt'') = Inr sa) \<and>
               (\<exists>la. optional_date (test_host response_list) (property ps ''lastAttemptAt'') =
                        Inr la)) xs"
    using j p by (intro exI[of _ items]) (simp add: list_all_iff items_def)
  from o b a show ?thesis by blast
qed

section \<open>Dates: the calendar fields of a time value\<close>

text \<open>
  The year computed by \<open>YearFromDay\<close> is the year of the standard: the one whose first
  day is not after the given day and whose successor's first day is.  The proof bounds
  the first day of a year by the mean length of a year.
\<close>

lemma div_step:
  fixes a c :: int
  assumes "0 < c"
  shows "(a + 1) div c = a div c + (if (a + 1) mod c = 0 then 1 else 0)"
proof (cases "a mod c + 1 = c")
  case True
  have e: "c * (a div c) + a mod c = a" by simp
  have "c * (a div c + 1) = c * (a div c) + c" by (simp add: algebra_simps)
  with e True have "a + 1 = c * (a div c + 1) + 0" by linarith
  from int_div_pos_eq[OF this] int_mod_pos_eq[OF this] assms show ?thesis by simp
next
  case False
  have r: "0 \<le> a mod c" "a mod c < c" using assms by simp_all
  with False have lt: "a mod c + 1 < c" by simp
  have e: "c * (a div c) + a mod c = a" by simp
  then have "a + 1 = c * (a div c) + (a mod c + 1)" by linarith
  from int_div_pos_eq[OF this _ lt] int_mod_pos_eq[OF this _ lt] r show ?thesis by simp
qed

lemma mod_shift:
  fixes y :: int
  shows "(y - 1968) mod 4 = y mod 4" "(y - 1900) mod 100 = y mod 100"
    "(y - 1600) mod 400 = y mod 400"
proof -
  have "y - 1968 = y + 4 * (- 492)" "y - 1900 = y + 100 * (- 19)" "y - 1600 = y + 400 * (- 4)"
    by simp_all
  then show "(y - 1968) mod 4 = y mod 4" "(y - 1900) mod 100 = y mod 100"
    "(y - 1600) mod 400 = y mod 400"
    by (simp_all only: mod_mult_self2)
qed

lemma div4: "(y - 1968) div 4 = (y - 1969) div 4 + (if y mod 4 = 0 then 1 else 0)" for y :: int
  using div_step[of 4 "y - 1969"] by (simp add: mod_shift)

lemma div100: "(y - 1900) div 100 = (y - 1901) div 100 + (if y mod 100 = 0 then 1 else 0)" for y :: int
  using div_step[of 100 "y - 1901"] by (simp add: mod_shift)

lemma div400: "(y - 1600) div 400 = (y - 1601) div 400 + (if y mod 400 = 0 then 1 else 0)" for y :: int
  using div_step[of 400 "y - 1601"] by (simp add: mod_shift)

lemma mod_100_4: "y mod 100 = 0 \<longrightarrow> y mod 4 = 0" for y :: int
  by presburger

lemma mod_400_100: "y mod 400 = 0 \<longrightarrow> y mod 100 = 0" for y :: int
  by presburger


lemma year_step:
  fixes a A B C :: int
  assumes "p100 \<longrightarrow> p4" "p400 \<longrightarrow> p100"
  shows "365 * (a + 1) + (A + (if p4 then 1 else 0)) - (B + (if p100 then 1 else 0)) +
          (C + (if p400 then 1 else 0)) =
         365 * a + A - B + C +
          (if \<not> p4 then 365 else if \<not> p100 then 366 else if \<not> p400 then 365 else 366)"
  using assms by (cases p4; cases p100; cases p400) simp_all

lemma DayFromYear_Suc: "DayFromYear (y + 1) = DayFromYear y + DaysInYear y"
proof -
  have e1: "y + 1 - 1969 = y - 1968" "y + 1 - 1901 = y - 1900" "y + 1 - 1601 = y - 1600"
    "y + 1 - 1970 = y - 1970 + 1"
    by simp_all
  show ?thesis
    unfolding DayFromYear_def DaysInYear_def e1 div4 div100 div400
    by (rule year_step[OF mod_100_4 mod_400_100])
qed

lemma div_bounds:
  fixes a :: int
  shows "4 * (a div 4) \<le> a" "a - 3 \<le> 4 * (a div 4)"
    "100 * (a div 100) \<le> a" "a - 99 \<le> 100 * (a div 100)"
    "400 * (a div 400) \<le> a" "a - 399 \<le> 400 * (a div 400)"
proof -
  have m: "4 * (a div 4) + a mod 4 = a" "100 * (a div 100) + a mod 100 = a"
    "400 * (a div 400) + a mod 400 = a"
    by simp_all
  have r: "0 \<le> a mod 4" "a mod 4 < 4" "0 \<le> a mod 100" "a mod 100 < 100"
    "0 \<le> a mod 400" "a mod 400 < 400"
    by simp_all
  show "4 * (a div 4) \<le> a" "a - 3 \<le> 4 * (a div 4)"
    "100 * (a div 100) \<le> a" "a - 99 \<le> 100 * (a div 100)"
    "400 * (a div 400) \<le> a" "a - 399 \<le> 400 * (a div 400)"
    using m r by linarith+
qed

lemma estimate_arith:
  fixes y A B C :: int
  assumes "4 * A \<le> y - 1969" "y - 1969 - 3 \<le> 4 * A"
    "100 * B \<le> y - 1901" "y - 1901 - 99 \<le> 100 * B"
    "400 * C \<le> y - 1601" "y - 1601 - 399 \<le> 400 * C"
  shows "146097 * (y - 1970) - 506 \<le> 400 * (365 * (y - 1970) + A - B + C)"
    and "400 * (365 * (y - 1970) + A - B + C) \<le> 146097 * (y - 1970) + 589"
  using assms by (simp_all add: algebra_simps)

lemma DayFromYear_estimate:
  "146097 * (y - 1970) - 506 \<le> 400 * DayFromYear y"
  "400 * DayFromYear y \<le> 146097 * (y - 1970) + 589"
  unfolding DayFromYear_def
  by (rule estimate_arith; rule div_bounds)+

lemma estimate_year:
  fixes d E :: int
  assumes "146097 * E \<le> 400 * d" "400 * d < 146097 * E + 146097"
    and "400 * Dm \<le> 146097 * (E - 1) + 589"
    and "146097 * (E + 2) - 506 \<le> 400 * Dp"
  shows "Dm \<le> d" "d < Dp"
  using assms by (simp_all add: algebra_simps)

lemma YearFromDay_bounds:
  "DayFromYear (YearFromDay d) \<le> d \<and> d < DayFromYear (YearFromDay d + 1)"
proof -
  define E where "E = (d * 400) div 146097"
  have m: "146097 * E + (d * 400) mod 146097 = d * 400" unfolding E_def by simp
  have r: "0 \<le> (d * 400) mod 146097" "(d * 400) mod 146097 < 146097" by simp_all
  from m r have E: "146097 * E \<le> 400 * d" "400 * d < 146097 * E + 146097" by linarith+
  have lo: "400 * DayFromYear (1970 + E - 1) \<le> 146097 * (E - 1) + 589"
    using DayFromYear_estimate(2)[of "1970 + E - 1"] by simp
  have hi: "146097 * (E + 2) - 506 \<le> 400 * DayFromYear (1970 + E + 1 + 1)"
    using DayFromYear_estimate(1)[of "1970 + E + 1 + 1"] by simp
  note b = estimate_year[OF E lo hi]
  show ?thesis
    unfolding YearFromDay_def E_def[symmetric] Let_def
    using b by auto
qed

subsection \<open>Reading decimal fields back\<close>

lemma digit_step: "10 * (n div (10 * k)) + (n div k) mod 10 = n div k" for n k :: nat
proof -
  have "n div (10 * k) = (n div k) div 10" by (simp add: div_mult2_eq mult.commute)
  then show ?thesis by simp
qed

lemma digits_acc_numeral:
  "digits_acc (numeral k) acc s =
     (case s of
        [] \<Rightarrow> None
      | c # r \<Rightarrow> (case digit_val c of None \<Rightarrow> None
                 | Some v \<Rightarrow> digits_acc (pred_numeral k) (10 * acc + v) r))"
  by (simp add: numeral_eq_Suc)

lemma digits_acc_1:
  "digits_acc 1 acc s =
     (case s of
        [] \<Rightarrow> None
      | c # r \<Rightarrow> (case digit_val c of None \<Rightarrow> None | Some v \<Rightarrow> Some (10 * acc + v, r)))"
  unfolding One_nat_def by (simp split: list.splits option.splits)

lemma digits_pad2: "n < 100 \<Longrightarrow> digits 2 (pad2 n @ rest) = Some (int n, rest)"
proof -
  assume n: "n < 100"
  have a: "(n div 10) mod 10 = n div 10" using n by simp
  have "10 * (n div 10) + n mod 10 = n" by simp
  then show ?thesis
    by (simp add: digits_def pad2_def digits_acc_numeral digits_acc_1 digit_val_digit_char a)
qed

lemma digits_pad3: "n < 1000 \<Longrightarrow> digits 3 (pad3 n @ rest) = Some (int n, rest)"
proof -
  assume n: "n < 1000"
  have a: "(n div 100) mod 10 = n div 100" using n by simp
  have b: "10 * (n div 100) + (n div 10) mod 10 = n div 10"
    using digit_step[of n 10] by simp
  have c: "10 * (n div 10) + n mod 10 = n" by simp
  show ?thesis
    by (simp add: digits_def pad3_def digits_acc_numeral digits_acc_1 digit_val_digit_char a)
       (use b c in linarith)
qed

lemma digits_pad4: "n < 10000 \<Longrightarrow> digits 4 (pad4 n @ rest) = Some (int n, rest)"
proof -
  assume n: "n < 10000"
  have a: "(n div 1000) mod 10 = n div 1000" using n by simp
  have b: "10 * (n div 1000) + (n div 100) mod 10 = n div 100"
    using digit_step[of n 100] by simp
  have c: "10 * (n div 100) + (n div 10) mod 10 = n div 10"
    using digit_step[of n 10] by simp
  have d: "10 * (n div 10) + n mod 10 = n" by simp
  show ?thesis
    by (simp add: digits_def pad4_def digits_acc_numeral digits_acc_1 digit_val_digit_char a)
       (use b c d in linarith)
qed

lemma digits_pad6: "n < 1000000 \<Longrightarrow> digits 6 (pad6 n @ rest) = Some (int n, rest)"
proof -
  assume n: "n < 1000000"
  have a: "(n div 100000) mod 10 = n div 100000" using n by simp
  have b: "10 * (n div 100000) + (n div 10000) mod 10 = n div 10000"
    using digit_step[of n 10000] by simp
  have c: "10 * (n div 10000) + (n div 1000) mod 10 = n div 1000"
    using digit_step[of n 1000] by simp
  have d: "10 * (n div 1000) + (n div 100) mod 10 = n div 100"
    using digit_step[of n 100] by simp
  have e: "10 * (n div 100) + (n div 10) mod 10 = n div 10"
    using digit_step[of n 10] by simp
  have f: "10 * (n div 10) + n mod 10 = n" by simp
  show ?thesis
    by (simp add: digits_def pad6_def digits_acc_numeral digits_acc_1 digit_val_digit_char a)
       (use b c d e f in linarith)
qed

lemma digit_char_not_sign:
  "digit_char n \<noteq> CHR ''+''" "digit_char n \<noteq> CHR ''-''"
proof -
  have "digit_val (CHR ''+'') = None" "digit_val (CHR ''-'') = None"
    by (simp_all add: digit_val_def)
  then show "digit_char n \<noteq> CHR ''+''" "digit_char n \<noteq> CHR ''-''"
    using digit_val_digit_char[of n] by auto
qed

subsection \<open>The fields of a time value are those of a calendar date\<close>

lemma DayWithinYear_range:
  "0 \<le> DayWithinYear t \<and> DayWithinYear t < 365 + InLeapYear t"
proof -
  have l: "DaysInYear (YearFromDay (Day t)) = 365 + InLeapYear t"
    by (simp add: InLeapYear_def DaysInYear_def YearFromTime_def)
  from YearFromDay_bounds[of "Day t"] DayFromYear_Suc[of "YearFromDay (Day t)"] l
  show ?thesis
    unfolding DayWithinYear_def YearFromTime_def by linarith
qed

lemma InLeapYear_cases: "InLeapYear t = 0 \<or> InLeapYear t = 1"
  by (simp add: InLeapYear_def)

lemma month_of_day_0:
  assumes "0 \<le> d" "d < 365"
  shows "0 \<le> MonthOfDay 0 d \<and> MonthOfDay 0 d \<le> 11 \<and>
         MonthStart 0 (MonthOfDay 0 d) \<le> d \<and> d < MonthStart 0 (MonthOfDay 0 d + 1)"
  using assms unfolding MonthOfDay_def MonthStart_def by (simp split: if_splits)

lemma month_of_day_1:
  assumes "0 \<le> d" "d < 366"
  shows "0 \<le> MonthOfDay 1 d \<and> MonthOfDay 1 d \<le> 11 \<and>
         MonthStart 1 (MonthOfDay 1 d) \<le> d \<and> d < MonthStart 1 (MonthOfDay 1 d + 1)"
  using assms unfolding MonthOfDay_def MonthStart_def by (simp split: if_splits)

lemma month_fields:
  "0 \<le> MonthFromTime t \<and> MonthFromTime t \<le> 11 \<and>
   MonthStart (InLeapYear t) (MonthFromTime t) \<le> DayWithinYear t \<and>
   DayWithinYear t < MonthStart (InLeapYear t) (MonthFromTime t + 1)"
proof -
  from InLeapYear_cases[of t] show ?thesis
  proof
    assume l: "InLeapYear t = 0"
    with DayWithinYear_range[of t] have "0 \<le> DayWithinYear t" "DayWithinYear t < 365" by simp_all
    from month_of_day_0[OF this] show ?thesis by (simp add: MonthFromTime_def l)
  next
    assume l: "InLeapYear t = 1"
    with DayWithinYear_range[of t] have "0 \<le> DayWithinYear t" "DayWithinYear t < 366" by simp_all
    from month_of_day_1[OF this] show ?thesis by (simp add: MonthFromTime_def l)
  qed
qed

lemma date_fields:
  "1 \<le> DateFromTime t \<and>
   DateFromTime t \<le> DaysInMonth (YearFromTime t) (MonthFromTime t + 1)"
proof -
  have l: "(if DaysInYear (YearFromTime t) = 366 then 1 else 0) = InLeapYear t"
    by (simp add: InLeapYear_def)
  from month_fields[of t] show ?thesis
    unfolding DateFromTime_def DaysInMonth_def Let_def l by simp
qed

lemma date_le_31: "DateFromTime t \<le> 31"
proof -
  have "MonthStart l (m + 1) - MonthStart l m \<le> 31" if "l = 0 \<or> l = 1" "0 \<le> m" "m \<le> 11" for l m :: int
  proof -
    from that(2,3) consider "m = 0" | "m = 1" | "m = 2" | "m = 3" | "m = 4" | "m = 5" | "m = 6"
      | "m = 7" | "m = 8" | "m = 9" | "m = 10" | "m = 11"
      by atomize_elim presburger
    then show ?thesis using that(1) by cases (auto simp: MonthStart_def)
  qed
  from this[OF InLeapYear_cases[of t], of "MonthFromTime t"] month_fields[of t]
  show ?thesis unfolding DateFromTime_def by linarith
qed

lemma MakeDay_fields:
  "MakeDay (YearFromTime t) (MonthFromTime t) (DateFromTime t) = Day t"
proof -
  have l: "(if DaysInYear (YearFromTime t) = 366 then 1 else 0) = InLeapYear t"
    by (simp add: InLeapYear_def)
  from month_fields[of t] have "MonthFromTime t div 12 = 0" "MonthFromTime t mod 12 = MonthFromTime t"
    by simp_all
  then show ?thesis
    unfolding MakeDay_def Let_def by (simp add: l DateFromTime_def DayWithinYear_def)
qed

lemma time_split:
  fixes t :: int
  shows "t mod 86400000 =
    ((t div 3600000) mod 24) * 3600000 + ((t div 60000) mod 60) * 60000 +
    ((t div 1000) mod 60) * 1000 + t mod 1000"
proof -
  have d1: "t div 60000 = (t div 1000) div 60"
    using zdiv_zmult2_eq[of 60 t 1000] by simp
  have d2: "t div 3600000 = (t div 60000) div 60"
    using zdiv_zmult2_eq[of 60 t 60000] by simp
  have d3: "t div 86400000 = (t div 3600000) div 24"
    using zdiv_zmult2_eq[of 24 t 3600000] by simp
  have m0: "t mod 86400000 = t - 86400000 * (t div 86400000)"
    by (simp add: minus_mult_div_eq_mod)
  have m1: "t mod 1000 = t - 1000 * (t div 1000)"
    by (simp add: minus_mult_div_eq_mod)
  have m2: "(t div 1000) mod 60 = t div 1000 - 60 * (t div 60000)"
    unfolding d1 by (simp add: minus_mult_div_eq_mod)
  have m3: "(t div 60000) mod 60 = t div 60000 - 60 * (t div 3600000)"
    unfolding d2 by (simp add: minus_mult_div_eq_mod)
  have m4: "(t div 3600000) mod 24 = t div 3600000 - 24 * (t div 86400000)"
    unfolding d3 by (simp add: minus_mult_div_eq_mod)
  show ?thesis unfolding m0 m1 m2 m3 m4 by (simp add: algebra_simps)
qed

lemma MakeTime_fields:
  "MakeTime (HourFromTime t) (MinFromTime t) (SecFromTime t) (msFromTime t) = TimeWithinDay t"
  unfolding MakeTime_def HourFromTime_def MinFromTime_def SecFromTime_def msFromTime_def
    TimeWithinDay_def msPerDay_def time_split ..

lemma MakeDate_fields:
  "MakeDate (MakeDay (YearFromTime t) (MonthFromTime t) (DateFromTime t))
     (MakeTime (HourFromTime t) (MinFromTime t) (SecFromTime t) (msFromTime t)) = t"
  unfolding MakeDay_fields MakeTime_fields
  by (simp add: MakeDate_def Day_def TimeWithinDay_def)

lemma time_ranges:
  "0 \<le> HourFromTime t \<and> HourFromTime t \<le> 23 \<and> 0 \<le> MinFromTime t \<and> MinFromTime t \<le> 59 \<and>
   0 \<le> SecFromTime t \<and> SecFromTime t \<le> 59 \<and> 0 \<le> msFromTime t \<and> msFromTime t \<le> 999"
proof -
  have "HourFromTime t < 24" "MinFromTime t < 60" "SecFromTime t < 60" "msFromTime t < 1000"
    "0 \<le> HourFromTime t" "0 \<le> MinFromTime t" "0 \<le> SecFromTime t" "0 \<le> msFromTime t"
    by (simp_all add: HourFromTime_def MinFromTime_def SecFromTime_def msFromTime_def)
  then show ?thesis by linarith
qed

lemma year_range:
  assumes "time_value t"
  shows "- 999999 \<le> YearFromTime t \<and> YearFromTime t \<le> 999999"
proof -
  define d where "d = Day t"
  define E where "E = (d * 400) div 146097"
  have dm: "86400000 * d + t mod 86400000 = t" unfolding d_def Day_def msPerDay_def by simp
  have dr: "0 \<le> t mod 86400000" "t mod 86400000 < 86400000" by simp_all
  from assms have "- 8640000000000000 \<le> t" "t \<le> 8640000000000000"
    by (simp_all add: time_value_def)
  with dm dr have d: "- 100000000 \<le> d" "d \<le> 100000000" by linarith+
  have m: "146097 * E + (d * 400) mod 146097 = d * 400" unfolding E_def by simp
  have r: "0 \<le> (d * 400) mod 146097" "(d * 400) mod 146097 < 146097" by simp_all
  from m r d have E: "- 300000 \<le> E" "E \<le> 300000" by linarith+
  have "YearFromTime t = 1970 + E - 1 \<or> YearFromTime t = 1970 + E + 1 \<or> YearFromTime t = 1970 + E"
    unfolding YearFromTime_def YearFromDay_def d_def[symmetric] E_def[symmetric] Let_def
    by simp
  with E show ?thesis by linarith
qed

subsection \<open>Parsing what \<^verbatim>\<open>toISOString\<close> prints\<close>

lemma pad4_head: "\<exists>c r. pad4 n = c # r \<and> c \<noteq> CHR ''+'' \<and> c \<noteq> CHR ''-''"
  by (simp add: pad4_def digit_char_not_sign)

lemma parse_year_string:
  assumes "- 999999 \<le> y" "y \<le> 999999"
  shows "parse_year (year_string y @ rest) = Some (y, rest)"
proof -
  consider "0 \<le> y \<and> y \<le> 9999" | "y < 0" | "9999 < y" by linarith
  then show ?thesis
  proof cases
    case 1
    then have n: "nat y < 10000" "int (nat y) = y" by linarith+
    from pad4_head[of "nat y"] obtain c r where
      p: "pad4 (nat y) = c # r" "c \<noteq> CHR ''+''" "c \<noteq> CHR ''-''" by blast
    have "parse_year (pad4 (nat y) @ rest) = digits 4 (pad4 (nat y) @ rest)"
      by (simp add: parse_year_def p)
    with digits_pad4[OF n(1), of rest] n(2) 1 show ?thesis
      by (simp add: year_string_def)
  next
    case 2
    with assms have n: "nat \<bar>y\<bar> < 1000000" "int (nat \<bar>y\<bar>) = - y" "- y \<noteq> 0" by linarith+
    from 2 have "year_string y @ rest = CHR ''-'' # pad6 (nat \<bar>y\<bar>) @ rest"
      by (simp add: year_string_def)
    with digits_pad6[OF n(1), of rest] n(2,3) show ?thesis
      by (simp add: parse_year_def)
  next
    case 3
    with assms have n: "nat \<bar>y\<bar> < 1000000" "int (nat \<bar>y\<bar>) = y" by linarith+
    from 3 have "year_string y @ rest = CHR ''+'' # pad6 (nat \<bar>y\<bar>) @ rest"
      by (simp add: year_string_def)
    with digits_pad6[OF n(1), of rest] n(2) show ?thesis
      by (simp add: parse_year_def)
  qed
qed

lemma parse_month_day_string:
  assumes "m < 100" "d < 100"
  shows "parse_month_day (CHR ''-'' # pad2 m @ CHR ''-'' # pad2 d @ rest) =
           Some ((int m, int d), rest)"
  using digits_pad2[OF assms(1), of "CHR ''-'' # pad2 d @ rest"] digits_pad2[OF assms(2), of rest]
  by (simp add: parse_month_day_def)

lemma parse_time_string:
  assumes "h < 100" "mi < 100" "s < 100" "ms < 1000"
  shows "parse_time (CHR ''T'' # pad2 h @ CHR '':'' # pad2 mi @ CHR '':'' # pad2 s @
                     CHR ''.'' # pad3 ms @ rest) =
           Some ((int h, int mi, int s, int ms), rest)"
  using digits_pad2[OF assms(1), of "CHR '':'' # pad2 mi @ CHR '':'' # pad2 s @ CHR ''.'' # pad3 ms @ rest"]
    digits_pad2[OF assms(2), of "CHR '':'' # pad2 s @ CHR ''.'' # pad3 ms @ rest"]
    digits_pad2[OF assms(3), of "CHR ''.'' # pad3 ms @ rest"]
    digits_pad3[OF assms(4), of rest]
  by (simp add: parse_time_def parse_seconds_def parse_millis_def)

lemma parse_offset_Z: "parse_offset ''Z'' = Some 0"
  by (simp add: parse_offset_def)

lemma iso_string_shape:
  "iso_string t =
     year_string (YearFromTime t) @
       (CHR ''-'' # pad2 (nat (MonthFromTime t + 1)) @ CHR ''-'' # pad2 (nat (DateFromTime t)) @
         (CHR ''T'' # pad2 (nat (HourFromTime t)) @ CHR '':'' # pad2 (nat (MinFromTime t)) @
            CHR '':'' # pad2 (nat (SecFromTime t)) @ CHR ''.'' # pad3 (nat (msFromTime t)) @ ''Z''))"
  by (simp add: iso_string_def)

lemma Date_parse_format_iso_string:
  assumes "time_value t"
  shows "Date_parse_format (iso_string t) = Some t"
proof -
  note yr = year_range[OF assms]
  note mf = month_fields[of t]
  note df = date_fields[of t]
  note d31 = date_le_31[of t]
  note tr = time_ranges[of t]
  have m: "nat (MonthFromTime t + 1) < 100" "int (nat (MonthFromTime t + 1)) = MonthFromTime t + 1"
    using mf by linarith+
  have d: "nat (DateFromTime t) < 100" "int (nat (DateFromTime t)) = DateFromTime t"
    using df d31 by linarith+
  have h: "nat (HourFromTime t) < 100" "int (nat (HourFromTime t)) = HourFromTime t"
    using tr by linarith+
  have mi: "nat (MinFromTime t) < 100" "int (nat (MinFromTime t)) = MinFromTime t"
    using tr by linarith+
  have s: "nat (SecFromTime t) < 100" "int (nat (SecFromTime t)) = SecFromTime t"
    using tr by linarith+
  have ms: "nat (msFromTime t) < 1000" "int (nat (msFromTime t)) = msFromTime t"
    using tr by linarith+
  have ok1: "1 \<le> MonthFromTime t + 1 \<and> MonthFromTime t + 1 \<le> 12 \<and> 1 \<le> DateFromTime t \<and>
             DateFromTime t \<le> DaysInMonth (YearFromTime t) (MonthFromTime t + 1)"
    using mf df by simp
  have ok2: "HourFromTime t \<le> 23 \<and> MinFromTime t \<le> 59 \<and> SecFromTime t \<le> 59"
    using tr by simp
  note p1 = parse_year_string[OF conjunct1[OF yr] conjunct2[OF yr]]
  note p2 = parse_month_day_string[OF m(1) d(1)]
  note p3 = parse_time_string[OF h(1) mi(1) s(1) ms(1)]
  show ?thesis
    by (simp only: Date_parse_format_def iso_string_shape p1 p2 p3 m(2) d(2) h(2) mi(2) s(2) ms(2)
        option.case prod.case ok1 ok2 not_True_eq_False if_False list.simps parse_offset_Z
        add_diff_cancel_right' mult_zero_left diff_0_right MakeDate_fields)
       simp
qed

lemma TimeClip_time_value: "time_value t \<Longrightarrow> TimeClip t = TimeValue t"
  by (simp add: time_value_def TimeClip_def)

section \<open>Timestamps there and back (C5)\<close>




text \<open>
  Every string of the standard format is decoded to the instant it denotes, and the
  string that \<^verbatim>\<open>toISOString\<close> then prints denotes that instant again.
\<close>

lemma reserialized_same_instant:
  assumes "Date_parse_format s = Some t" and "time_value t"
  shows "new_Date h (JStr s) = Inr (TimeValue t)"
    and "toISOString (TimeValue t) = Inr (iso_string t)"
    and "Date_parse_format (iso_string t) = Some t"
  using assms
  by (simp_all add: Date_parse_def TimeClip_time_value Date_parse_format_iso_string)






subsection \<open>C5\<close>








end
